theory Spec2Isabelle
  imports Main "HOL-Library.Word" "HOL-Library.Sublist"
begin

section \<open>The ESP32 uploader (main.py) as a shallow embedding\<close>

text \<open>
  The program drives the external tool \<^verbatim>\<open>esptool\<close> through \<^verbatim>\<open>subprocess.run\<close>, keeps one global
  variable (\<^verbatim>\<open>current_status\<close>), writes and removes transient files, and shows a status label.
  Everything it does beyond returning a value is written out here: the functions take a
  \<open>state\<close> and return the new one together with either the returned value (\<open>Inr\<close>) or the
  exception raised (\<open>Inl\<close>).

  Python text is modelled as \<open>string\<close> (a list of bytes). The three string operations that the
  program uses (\<^verbatim>\<open>in\<close>, \<^verbatim>\<open>endswith\<close>, \<^verbatim>\<open>rindex\<close> followed by a slice to the end) are applied to
  ASCII patterns only, for which UTF-8 bytes and code points give the same answers.
\<close>

subsection \<open>Python string operations\<close>

text \<open>\<^verbatim>\<open>text.startswith(pat)\<close>\<close>

fun startswith :: "string \<Rightarrow> string \<Rightarrow> bool" where
  "startswith text [] = True"
| "startswith [] (p # ps) = False"
| "startswith (c # cs) (p # ps) = (c = p \<and> startswith cs ps)"

text \<open>\<^verbatim>\<open>pat in text\<close>: \<open>pat\<close> occurs in \<open>text\<close> as a contiguous run of characters.\<close>

fun contains :: "string \<Rightarrow> string \<Rightarrow> bool" where
  "contains [] pat = (pat = [])"
| "contains (c # cs) pat = (startswith (c # cs) pat \<or> contains cs pat)"

text \<open>\<^verbatim>\<open>text.endswith(suf)\<close>\<close>

definition endswith :: "string \<Rightarrow> string \<Rightarrow> bool" where
  "endswith text suf = startswith (rev text) (rev suf)"

text \<open>
  \<^verbatim>\<open>text.rindex(c)\<close> for a one-character pattern: the highest index at which \<open>c\<close> stands,
  \<open>None\<close> where Python raises \<^verbatim>\<open>ValueError\<close> (no occurrence).
\<close>

fun rindex :: "string \<Rightarrow> char \<Rightarrow> nat option" where
  "rindex [] c = None"
| "rindex (x # xs) c =
     (case rindex xs c of
        Some i \<Rightarrow> Some (Suc i)
      | None \<Rightarrow> if x = c then Some 0 else None)"

text \<open>
  \<^verbatim>\<open>hex(n)\<close> for the addresses of the program, which are never negative: \<^verbatim>\<open>0x\<close> followed by
  the lower-case hexadecimal digits, without leading zeros.
\<close>

definition hex_digit :: "nat \<Rightarrow> char" where
  "hex_digit d = ''0123456789abcdef'' ! d"

fun hex_digits :: "nat \<Rightarrow> string" where
  "hex_digits n = (if n < 16 then [hex_digit n] else hex_digits (n div 16) @ [hex_digit (n mod 16)])"

declare hex_digits.simps [simp del]

definition hex :: "int \<Rightarrow> string" where
  "hex n = (if n < 0 then ''-0x'' @ hex_digits (nat (- n)) else ''0x'' @ hex_digits (nat n))"

text \<open>
  A value read from the configuration: a string or an integer. \<^verbatim>\<open>str(v)\<close> of a string is the
  string itself, of an integer its decimal digits with a minus sign for a negative one.
\<close>

datatype py_value = Py_str string | Py_int int

definition dec_digit :: "nat \<Rightarrow> char" where
  "dec_digit d = ''0123456789'' ! d"

fun dec_digits :: "nat \<Rightarrow> string" where
  "dec_digits n = (if n < 10 then [dec_digit n] else dec_digits (n div 10) @ [dec_digit (n mod 10)])"

declare dec_digits.simps [simp del]

fun str_py :: "py_value \<Rightarrow> string" where
  "str_py (Py_str v) = v"
| "str_py (Py_int n) = (if n < 0 then ''-'' @ dec_digits (nat (- n)) else dec_digits (nat n))"

subsection \<open>Constants of the module\<close>

text \<open>\<^verbatim>\<open>CHUNK_SIZE = 0x1000\<close>\<close>

definition CHUNK_SIZE :: int where
  "CHUNK_SIZE = 0x1000"

text \<open>
  The device status constants \<^verbatim>\<open>DEVICE_FOUND = 0\<close>, \<^verbatim>\<open>BOOT_MODE_ERROR = 1\<close>,
  \<^verbatim>\<open>NO_DEVICE_FOUND = 2\<close> are used as an enumeration only (compared, never computed with).
\<close>

datatype device_status = DEVICE_FOUND | BOOT_MODE_ERROR | NO_DEVICE_FOUND

definition BOOT_MODE_ERROR_TEXT :: string where
  "BOOT_MODE_ERROR_TEXT = ''Wrong boot mode detected''"

definition NO_DEVICE_FOUND_TEXT :: string where
  "NO_DEVICE_FOUND_TEXT = ''fatal error occurred: Failed to connect''"

definition DEVICE_FOUND_OUTPUT :: string where
  "DEVICE_FOUND_OUTPUT = ''ESP device found. Ready to upload.''"

definition BOOT_MODE_ERROR_OUTPUT :: string where
  "BOOT_MODE_ERROR_OUTPUT =
     ''ESP device not in proper boot mode. Please put the device in download mode.''"

definition NO_DEVICE_FOUND_OUTPUT :: string where
  "NO_DEVICE_FOUND_OUTPUT = ''No ESP device found. Please attach the device through a USB port.''"

subsection \<open>The world outside the program\<close>

text \<open>
  What \<^verbatim>\<open>subprocess.run(..., capture_output=True)\<close> returns: the exit code and the two captured
  streams, kept apart as Python keeps them. The streams are bytes, one \<open>char\<close> each.
\<close>

record completed_process =
  returncode :: int
  stdout :: string
  stderr :: string

text \<open>An entry of \<^verbatim>\<open>zip.filelist\<close> together with the bytes that \<^verbatim>\<open>zip.open(entry).read()\<close> gives
  (reading an entry is taken to succeed).
  The name of a \<^verbatim>\<open>ZipInfo\<close> is always a string, so the comparison of line 210 with \<^verbatim>\<open>None\<close>
  never holds and only the comparison with \<^verbatim>\<open>'/'\<close> is left in the model.\<close>

record entry =
  filename :: string
  content :: "8 word list"

text \<open>
  The surroundings are parameters of the model:
  \<^item> \<open>BAUD_RATE\<close>: the value of \<^verbatim>\<open>CONFIG['baud_rate']\<close> (the configuration file is not part of
    the sources), a string or an integer;
  \<^item> \<open>decode\<close>: Python's \<^verbatim>\<open>bytes.decode()\<close>, the text of a run of bytes, \<open>None\<close> where it raises
    \<^verbatim>\<open>UnicodeDecodeError\<close> (the bytes are not UTF-8);
  \<^item> \<open>comports\<close>: the device names (\<^verbatim>\<open>port[0]\<close>) of \<^verbatim>\<open>list_ports.comports()\<close>, in its order;
  \<^item> \<open>esptool\<close>: what the tool answers to a command line;
  \<^item> \<open>askopenfilename\<close>: the path the user picks in the file dialog;
  \<^item> \<open>zip_filelist\<close>: the entries of the archive at a path, \<open>None\<close> where \<^verbatim>\<open>zipfile.ZipFile\<close>
    raises (no such file, not an archive).
\<close>

record env =
  BAUD_RATE :: py_value
  decode :: "string \<Rightarrow> string option"
  comports :: "string list"
  esptool :: "string list \<Rightarrow> completed_process"
  askopenfilename :: string
  zip_filelist :: "string \<Rightarrow> entry list option"

text \<open>
  The observable actions, in the order they happen: every process started, the file dialog,
  the archive opened.
\<close>

datatype event =
    Ran "string list"
  | Dialog_opened
  | Zip_opened string

text \<open>
  The state: the global \<^verbatim>\<open>current_status\<close> (\<open>None\<close> is Python's \<^verbatim>\<open>None\<close>, its value at start),
  the text of the status label, the local files, and the actions so far. The messages printed
  on the console by \<^verbatim>\<open>upload_zip_folder\<close> are not part of the model.
\<close>

record state =
  current_status :: "device_status option"
  status_text :: string
  files :: "string \<rightharpoonup> 8 word list"
  trace :: "event list"

datatype error =
    CalledProcessError "string list"
  | ValueError
  | NameError
  | FileNotFoundError string
  | ZipFileError string
  | TypeError
  | UnicodeDecodeError

text \<open>
  \<^verbatim>\<open>subprocess.run(args, check=..., capture_output=True)\<close>: the process runs; with
  \<^verbatim>\<open>check=True\<close> a nonzero exit code raises \<^verbatim>\<open>CalledProcessError\<close>.
\<close>

definition subprocess_run :: "env \<Rightarrow> string list \<Rightarrow> bool \<Rightarrow> state \<Rightarrow> (error + completed_process) \<times> state" where
  "subprocess_run e args check s =
     (let result = esptool e args;
          s' = s\<lparr>trace := trace s @ [Ran args]\<rparr>
      in if check \<and> returncode result \<noteq> 0 then (Inl (CalledProcessError args), s')
         else (Inr result, s'))"

subsection \<open>class ESP32\<close>

record ESP32 =
  port :: string

text \<open>
  \<^verbatim>\<open>ESP32.check_status\<close> (lines 72-86). On line 74 \<^verbatim>\<open>BAUD_RATE\<close> stands among the arguments as it
  is, without the \<^verbatim>\<open>str()\<close> of the other three methods: for a value that is not a string
  \<^verbatim>\<open>subprocess.run\<close> raises \<^verbatim>\<open>TypeError\<close> before any process is started. The call has no
  \<^verbatim>\<open>check=True\<close>. The text examined is \<^verbatim>\<open>result.stdout.decode()\<close> (line 76), which raises
  \<^verbatim>\<open>UnicodeDecodeError\<close> for bytes that are not UTF-8; \<^verbatim>\<open>result.stderr\<close> is not read.
\<close>

definition check_status :: "env \<Rightarrow> ESP32 \<Rightarrow> state \<Rightarrow> (error + device_status) \<times> state" where
  "check_status e self s =
     (case BAUD_RATE e of
        Py_int n \<Rightarrow> (Inl TypeError, s)
      | Py_str baud \<Rightarrow>
          (case subprocess_run e [''esptool'', ''--port'', port self, ''--baud'', baud, ''flash_id''] False s of
             (Inl err, s') \<Rightarrow> (Inl err, s')
           | (Inr result, s') \<Rightarrow>
               (case decode e (stdout result) of
                  None \<Rightarrow> (Inl UnicodeDecodeError, s')
                | Some text \<Rightarrow>
                    if contains text BOOT_MODE_ERROR_TEXT then (Inr BOOT_MODE_ERROR, s')
                    else if contains text NO_DEVICE_FOUND_TEXT then (Inr NO_DEVICE_FOUND, s')
                    else (Inr DEVICE_FOUND, s'))))"

text \<open>\<^verbatim>\<open>ESP32.upload_file\<close> (lines 88-93)\<close>

definition upload_file :: "env \<Rightarrow> ESP32 \<Rightarrow> int \<Rightarrow> string \<Rightarrow> state \<Rightarrow> (error + unit) \<times> state" where
  "upload_file e self address file_path s =
     (case subprocess_run e [''esptool'', ''--port'', port self, ''--baud'', str_py (BAUD_RATE e), ''write_flash'',
                             ''--flash_size=detect'', hex address, file_path] True s of
        (Inl err, s') \<Rightarrow> (Inl err, s')
      | (Inr result, s') \<Rightarrow> (Inr (), s'))"

text \<open>\<^verbatim>\<open>ESP32.upload_program\<close> (lines 95-100)\<close>

definition upload_program :: "env \<Rightarrow> ESP32 \<Rightarrow> int \<Rightarrow> string \<Rightarrow> state \<Rightarrow> (error + unit) \<times> state" where
  "upload_program e self address file_path s =
     (case subprocess_run e [''esptool'', ''--port'', port self, ''--baud'', str_py (BAUD_RATE e), ''write_flash'',
                             ''--flash_size=detect'', hex address, file_path] True s of
        (Inl err, s') \<Rightarrow> (Inl err, s')
      | (Inr result, s') \<Rightarrow> (Inr (), s'))"

text \<open>\<^verbatim>\<open>ESP32.clear_flash\<close> (lines 102-107)\<close>

definition clear_flash :: "env \<Rightarrow> ESP32 \<Rightarrow> state \<Rightarrow> (error + unit) \<times> state" where
  "clear_flash e self s =
     (case subprocess_run e [''esptool'', ''--port'', port self, ''--baud'', str_py (BAUD_RATE e), ''erase_flash''] True s of
        (Inl err, s') \<Rightarrow> (Inl err, s')
      | (Inr result, s') \<Rightarrow> (Inr (), s'))"

subsection \<open>Finding the device\<close>

text \<open>
  The loop of \<^verbatim>\<open>get_device\<close> (lines 51-65) over the ports that are left; the \<^verbatim>\<open>else\<close> of the
  \<^verbatim>\<open>for\<close> is the empty list.
\<close>

fun get_device_loop :: "env \<Rightarrow> string list \<Rightarrow> state \<Rightarrow> (error + (ESP32 option \<times> device_status)) \<times> state" where
  "get_device_loop e [] s = (Inr (None, NO_DEVICE_FOUND), s)"
| "get_device_loop e (p # ports) s =
     (let device = \<lparr>port = p\<rparr>
      in case check_status e device s of
           (Inl err, s') \<Rightarrow> (Inl err, s')
         | (Inr status, s') \<Rightarrow>
             if status = DEVICE_FOUND then (Inr (Some device, status), s')
             else if status = BOOT_MODE_ERROR then (Inr (None, status), s')
             else get_device_loop e ports s')"

text \<open>\<^verbatim>\<open>get_device\<close> (lines 48-65)\<close>

definition get_device :: "env \<Rightarrow> state \<Rightarrow> (error + (ESP32 option \<times> device_status)) \<times> state" where
  "get_device e s = get_device_loop e (comports e) s"

subsection \<open>Local files\<close>

text \<open>
  \<^verbatim>\<open>with open(path, 'wb') as temp: temp.write(data)\<close>: the file is created or replaced. The model
  takes every path to be writable; Python raises when the path has a directory part that does
  not exist, which the transient path has when the last dot of the entry's name lies in a
  directory part.
\<close>

definition write_file :: "string \<Rightarrow> 8 word list \<Rightarrow> state \<Rightarrow> state" where
  "write_file path data s = s\<lparr>files := (files s)(path \<mapsto> data)\<rparr>"

text \<open>\<^verbatim>\<open>os.path.getsize(path)\<close>: the number of bytes of the file; raises when there is no file.\<close>

definition getsize :: "string \<Rightarrow> state \<Rightarrow> error + int" where
  "getsize path s =
     (case files s path of
        None \<Rightarrow> Inl (FileNotFoundError path)
      | Some data \<Rightarrow> Inr (int (length data)))"

text \<open>\<^verbatim>\<open>os.remove(path)\<close>: raises when there is no file.\<close>

definition remove_file :: "string \<Rightarrow> state \<Rightarrow> (error + unit) \<times> state" where
  "remove_file path s =
     (case files s path of
        None \<Rightarrow> (Inl (FileNotFoundError path), s)
      | Some data \<Rightarrow> (Inr (), s\<lparr>files := (files s)(path := None)\<rparr>))"

subsection \<open>class GUI\<close>

text \<open>
  The periodic check of \<^verbatim>\<open>GUI.run\<close> (the inner function \<^verbatim>\<open>task\<close>, lines 144-165): one run of
  it. That it schedules itself again after a second is timing and is left out.
\<close>

definition task :: "env \<Rightarrow> state \<Rightarrow> (error + unit) \<times> state" where
  "task e s =
     (case get_device e s of
        (Inl err, s') \<Rightarrow> (Inl err, s')
      | (Inr (device, status), s') \<Rightarrow>
          (let s1 = s'\<lparr>current_status := Some status\<rparr>
           in if status = DEVICE_FOUND then (Inr (), s1\<lparr>status_text := DEVICE_FOUND_OUTPUT\<rparr>)
              else
                (let s2 = (if status = BOOT_MODE_ERROR then s1\<lparr>status_text := BOOT_MODE_ERROR_OUTPUT\<rparr> else s1);
                     s3 = (if status = NO_DEVICE_FOUND then s2\<lparr>status_text := NO_DEVICE_FOUND_OUTPUT\<rparr> else s2)
                 in (Inr (), s3))))"

text \<open>The two comprehensions of lines 203-204, which build \<^verbatim>\<open>file_list\<close>.\<close>

definition file_list_of :: "entry list \<Rightarrow> entry list" where
  "file_list_of filelist =
     [file_name \<leftarrow> filelist. endswith (filename file_name) ''.bin''] @
     [file_name \<leftarrow> filelist. \<not> endswith (filename file_name) ''.bin'']"

text \<open>Line 234: the address for the next file (\<open>sz\<close> is the \<^verbatim>\<open>size\<close> of line 233).\<close>

definition next_address :: "int \<Rightarrow> int \<Rightarrow> int" where
  "next_address current_address sz = ((current_address + sz) div CHUNK_SIZE + 1) * CHUNK_SIZE"

text \<open>
  Line 219: \<^verbatim>\<open>f'temp{file_name[file_name.rindex("."):]}'\<close>, the path of the transient file: the
  word \<^verbatim>\<open>temp\<close> followed by the name from its last dot on. \<^verbatim>\<open>rindex\<close> raises \<^verbatim>\<open>ValueError\<close> for a
  name without a dot.
\<close>

definition temp_path_of :: "string \<Rightarrow> error + string" where
  "temp_path_of file_name =
     (case rindex file_name (CHR ''.'') of
        None \<Rightarrow> Inl ValueError
      | Some i \<Rightarrow> Inr (''temp'' @ drop i file_name))"

text \<open>
  The loop of lines 208-237 over the entries that are left, from the running address
  \<open>current_address\<close>. When the loop ends the model returns the running address. An exception
  leaves the loop at once, with the state as it is at that moment: there is no \<^verbatim>\<open>try\<close> in the
  program.
\<close>

fun upload_loop :: "env \<Rightarrow> ESP32 \<Rightarrow> entry list \<Rightarrow> int \<Rightarrow> state \<Rightarrow> (error + int) \<times> state" where
  "upload_loop e device [] current_address s = (Inr current_address, s)"
| "upload_loop e device (file_name # rest) current_address s =
     (if filename file_name = ''/'' then upload_loop e device rest current_address s
      else
        (case temp_path_of (filename file_name) of
           Inl err \<Rightarrow> (Inl err, s)
         | Inr temp_path \<Rightarrow>
             (let s1 = write_file temp_path (content file_name) s
              in case (if endswith (filename file_name) ''.bin''
                       then upload_program e device current_address temp_path s1
                       else upload_file e device current_address temp_path s1) of
                   (Inl err, s2) \<Rightarrow> (Inl err, s2)
                 | (Inr u, s2) \<Rightarrow>
                     (case getsize temp_path s2 of
                        Inl err \<Rightarrow> (Inl err, s2)
                      | Inr sz \<Rightarrow>
                          (case remove_file temp_path s2 of
                             (Inl err, s3) \<Rightarrow> (Inl err, s3)
                           | (Inr u', s3) \<Rightarrow>
                               upload_loop e device rest (next_address current_address sz) s3)))))"

text \<open>
  \<^verbatim>\<open>GUI.upload_zip_folder\<close> (lines 173-243). On line 191 the name \<^verbatim>\<open>task\<close> is not bound in
  this method (it is local to \<^verbatim>\<open>run\<close>), so evaluating it raises \<^verbatim>\<open>NameError\<close>.
\<close>

definition upload_zip_folder :: "env \<Rightarrow> state \<Rightarrow> (error + bool) \<times> state" where
  "upload_zip_folder e s =
     (if current_status s \<noteq> Some DEVICE_FOUND then (Inr False, s)
      else
        (let file_path = askopenfilename e;
             s1 = s\<lparr>trace := trace s @ [Dialog_opened]\<rparr>;
             s2 = s1\<lparr>status_text := ''Uploading files... (this may take a while)''\<rparr>
         in case get_device e s2 of
              (Inl err, s3) \<Rightarrow> (Inl err, s3)
            | (Inr (None, status), s3) \<Rightarrow> (Inl NameError, s3)
            | (Inr (Some device, status), s3) \<Rightarrow>
                (case clear_flash e device s3 of
                   (Inl err, s4) \<Rightarrow> (Inl err, s4)
                 | (Inr u, s4) \<Rightarrow>
                     (case zip_filelist e file_path of
                        None \<Rightarrow> (Inl (ZipFileError file_path), s4)
                      | Some filelist \<Rightarrow>
                          (let s5 = s4\<lparr>trace := trace s4 @ [Zip_opened file_path]\<rparr>
                           in case upload_loop e device (file_list_of filelist) 0x0 s5 of
                                (Inl err, s6) \<Rightarrow> (Inl err, s6)
                              | (Inr a, s6) \<Rightarrow>
                                  (Inr True, s6\<lparr>status_text := ''Files uploaded successfully!''\<rparr>))))))"

text \<open>
  The values the running address of the loop takes, one before each file, for files of the
  given sizes: the address \<open>a\<close> first, then by line 234.
\<close>

fun address_run :: "int \<Rightarrow> int list \<Rightarrow> int list" where
  "address_run a [] = []"
| "address_run a (sz # sizes) = a # address_run (next_address a sz) sizes"

subsection \<open>Concrete surroundings for the examples\<close>

text \<open>A tool that succeeds silently on every command.\<close>

definition tool_ok :: "string list \<Rightarrow> completed_process" where
  "tool_ok args = \<lparr>returncode = 0, stdout = [], stderr = []\<rparr>"

text \<open>A tool whose \<^verbatim>\<open>write_flash\<close> fails with exit code 2 and that succeeds otherwise.\<close>

definition tool_write_fails :: "string list \<Rightarrow> completed_process" where
  "tool_write_fails args =
     (if ''write_flash'' \<in> set args then \<lparr>returncode = 2, stdout = ''A fatal error occurred'', stderr = []\<rparr>
      else \<lparr>returncode = 0, stdout = [], stderr = []\<rparr>)"

text \<open>A tool that reports the wrong boot mode on its error stream only.\<close>

definition tool_stderr_only :: "string list \<Rightarrow> completed_process" where
  "tool_stderr_only args = \<lparr>returncode = 2, stdout = [], stderr = ''Wrong boot mode detected''\<rparr>"

text \<open>
  A tool whose output depends on the port it is pointed at (the third word of the command
  line): the text listed for the port, with exit code 2, or silent success for a port that
  is not listed.
\<close>

definition tool_by_port :: "(string \<times> string) list \<Rightarrow> string list \<Rightarrow> completed_process" where
  "tool_by_port outs args =
     (case args of
        tool # flag # p # rest \<Rightarrow>
          (case map_of outs p of
             Some out \<Rightarrow> \<lparr>returncode = 2, stdout = out, stderr = []\<rparr>
           | None \<Rightarrow> \<lparr>returncode = 0, stdout = [], stderr = []\<rparr>)
      | _ \<Rightarrow> \<lparr>returncode = 0, stdout = [], stderr = []\<rparr>)"

text \<open>
  A tool that answers every command with the given exit code, output and error output.
\<close>

definition tool_says :: "int \<Rightarrow> string \<Rightarrow> string \<Rightarrow> string list \<Rightarrow> completed_process" where
  "tool_says code out err args = \<lparr>returncode = code, stdout = out, stderr = err\<rparr>"

text \<open>
  Decoding for the examples: bytes below 128 are ASCII and decode to themselves; a byte from 128
  on makes the examples' decoding fail (the examples have no multi-byte sequences).
\<close>

definition ascii_decode :: "string \<Rightarrow> string option" where
  "ascii_decode bytes = (if list_all (\<lambda>c. \<not> digit7 c) bytes then Some bytes else None)"

definition bench :: "(string list \<Rightarrow> completed_process) \<Rightarrow> string list \<Rightarrow> env" where
  "bench tool ports =
     \<lparr>BAUD_RATE = Py_str ''115200'', decode = ascii_decode, comports = ports, esptool = tool,
      askopenfilename = ''bundle.zip'', zip_filelist = (\<lambda>path. None)\<rparr>"

text \<open>An archive entry with the given name and \<open>n\<close> zero bytes.\<close>

definition file_of :: "string \<Rightarrow> nat \<Rightarrow> entry" where
  "file_of name n = \<lparr>filename = name, content = replicate n 0\<rparr>"

text \<open>The surroundings \<open>e\<close> with an archive of the given entries at the path the user picks.\<close>

definition with_archive :: "env \<Rightarrow> entry list \<Rightarrow> env" where
  "with_archive e filelist =
     e\<lparr>zip_filelist := (\<lambda>path. if path = askopenfilename e then Some filelist else None)\<rparr>"

text \<open>The state when the program starts.\<close>

definition start :: state where
  "start = \<lparr>current_status = None, status_text = ''Checking for an ESP device...'',
            files = Map.empty, trace = []\<rparr>"

text \<open>The state after the periodic check has found a device.\<close>

definition ready :: state where
  "ready = start\<lparr>current_status := Some DEVICE_FOUND, status_text := DEVICE_FOUND_OUTPUT\<rparr>"

subsection \<open>Command lines, for the statements below\<close>

text \<open>The command line of \<^verbatim>\<open>check_status\<close> for a port.\<close>

abbreviation (input) flash_id_cmd :: "env \<Rightarrow> string \<Rightarrow> string list" where
  "flash_id_cmd e p \<equiv> [''esptool'', ''--port'', p, ''--baud'', str_py (BAUD_RATE e), ''flash_id'']"

text \<open>The command line of \<^verbatim>\<open>upload_file\<close> and \<^verbatim>\<open>upload_program\<close> for an address and a path.\<close>

abbreviation (input) write_flash_cmd :: "env \<Rightarrow> ESP32 \<Rightarrow> int \<Rightarrow> string \<Rightarrow> string list" where
  "write_flash_cmd e self address file_path \<equiv>
     [''esptool'', ''--port'', port self, ''--baud'', str_py (BAUD_RATE e), ''write_flash'',
      ''--flash_size=detect'', hex address, file_path]"

section \<open>Properties\<close>

subsection \<open>The string operations mean what Python's mean\<close>

lemma startswith_prefix: "startswith t pat = prefix pat t"
  by (induction t pat rule: startswith.induct) auto

lemma contains_sublist: "contains t pat = sublist pat t"
  by (induction t) (auto simp: startswith_prefix sublist_Cons_right)

lemma endswith_suffix: "endswith t suf = suffix suf t"
  by (simp add: endswith_def startswith_prefix suffix_to_prefix)

lemma rindex_None: "rindex xs c = None \<longleftrightarrow> c \<notin> set xs"
  by (induction xs) (auto split: option.splits)

lemma rindex_Some:
  "rindex xs c = Some i \<Longrightarrow> i < length xs \<and> xs ! i = c \<and> c \<notin> set (drop (Suc i) xs)"
proof (induction xs arbitrary: i)
  case Nil
  then show ?case by simp
next
  case (Cons x xs)
  then show ?case
    by (auto split: option.splits if_splits simp: rindex_None)
qed

lemma hex_digits_small: "n < 16 \<Longrightarrow> hex_digits n = [hex_digit n]"
  by (simp add: hex_digits.simps)

lemma hex_digits_big: "16 \<le> n \<Longrightarrow> hex_digits n = hex_digits (n div 16) @ [hex_digit (n mod 16)]"
  by (subst hex_digits.simps) simp

lemma hex_0: "hex 0 = ''0x0''"
  by (simp add: hex_def hex_digits_small hex_digit_def)

lemma hex_0x1000: "hex 0x1000 = ''0x1000''"
  by (simp add: hex_def hex_digits_small hex_digits_big hex_digit_def)

lemma hex_0x2000: "hex 0x2000 = ''0x2000''"
  by (simp add: hex_def hex_digits_small hex_digits_big hex_digit_def)

subsection \<open>The flashing tool adapter\<close>

lemma subprocess_run_unchecked:
  "subprocess_run e args False s = (Inr (esptool e args), s\<lparr>trace := trace s @ [Ran args]\<rparr>)"
  by (simp add: subprocess_run_def)

text \<open>All of \<^verbatim>\<open>check_status\<close> at once.\<close>

lemma check_status_run:
  "check_status e self s =
     (case BAUD_RATE e of
        Py_int n \<Rightarrow> (Inl TypeError, s)
      | Py_str baud \<Rightarrow>
          (case decode e (stdout (esptool e [''esptool'', ''--port'', port self, ''--baud'', baud, ''flash_id''])) of
             None \<Rightarrow>
               (Inl UnicodeDecodeError,
                s\<lparr>trace := trace s @ [Ran [''esptool'', ''--port'', port self, ''--baud'', baud, ''flash_id'']]\<rparr>)
           | Some text \<Rightarrow>
               (Inr (if contains text BOOT_MODE_ERROR_TEXT then BOOT_MODE_ERROR
                     else if contains text NO_DEVICE_FOUND_TEXT then NO_DEVICE_FOUND
                     else DEVICE_FOUND),
                s\<lparr>trace := trace s @ [Ran [''esptool'', ''--port'', port self, ''--baud'', baud, ''flash_id'']]\<rparr>)))"
  by (simp add: check_status_def subprocess_run_unchecked split: py_value.splits option.splits)

lemma check_status_fst:
  "BAUD_RATE e = Py_str baud \<Longrightarrow>
   fst (check_status e self s) =
     (case decode e (stdout (esptool e [''esptool'', ''--port'', port self, ''--baud'', baud, ''flash_id''])) of
        None \<Rightarrow> Inl UnicodeDecodeError
      | Some text \<Rightarrow>
          Inr (if contains text BOOT_MODE_ERROR_TEXT then BOOT_MODE_ERROR
               else if contains text NO_DEVICE_FOUND_TEXT then NO_DEVICE_FOUND
               else DEVICE_FOUND))"
  by (simp add: check_status_run split: option.splits)

lemma check_status_errors:
  "check_status e self s = (Inl err, s') \<Longrightarrow> err = TypeError \<or> err = UnicodeDecodeError"
  by (auto simp: check_status_run split: py_value.splits option.splits)

lemma ascii_texts:
  "ascii_decode [] = Some []"
  "ascii_decode BOOT_MODE_ERROR_TEXT = Some BOOT_MODE_ERROR_TEXT"
  "ascii_decode NO_DEVICE_FOUND_TEXT = Some NO_DEVICE_FOUND_TEXT"
  by (simp_all add: ascii_decode_def BOOT_MODE_ERROR_TEXT_def NO_DEVICE_FOUND_TEXT_def)

lemma bench_probe:
  "fst (check_status (bench tool ports) \<lparr>port = p\<rparr> s) =
     (case ascii_decode (stdout (tool [''esptool'', ''--port'', p, ''--baud'', ''115200'', ''flash_id''])) of
        None \<Rightarrow> Inl UnicodeDecodeError
      | Some text \<Rightarrow>
          Inr (if contains text BOOT_MODE_ERROR_TEXT then BOOT_MODE_ERROR
               else if contains text NO_DEVICE_FOUND_TEXT then NO_DEVICE_FOUND
               else DEVICE_FOUND))"
  by (simp add: check_status_fst [where baud = "''115200''"] bench_def)

lemma texts_classified:
  "contains NO_DEVICE_FOUND_TEXT BOOT_MODE_ERROR_TEXT = False"
  "contains NO_DEVICE_FOUND_TEXT NO_DEVICE_FOUND_TEXT = True"
  "contains BOOT_MODE_ERROR_TEXT BOOT_MODE_ERROR_TEXT = True"
  "contains BOOT_MODE_ERROR_TEXT NO_DEVICE_FOUND_TEXT = False"
  "contains [] BOOT_MODE_ERROR_TEXT = False"
  "contains [] NO_DEVICE_FOUND_TEXT = False"
  by (simp_all add: BOOT_MODE_ERROR_TEXT_def NO_DEVICE_FOUND_TEXT_def)

text \<open>
  Claim C6, as stated, with the output text of the probe being what the tool writes on its two
  streams together: the no-device signature in the text gives \<open>NO_DEVICE_FOUND\<close>. It does not when
  the signature is on the error stream: the text of the two streams contains the no-device
  signature and not the boot-mode one, and the status is \<open>DEVICE_FOUND\<close>.
\<close>

theorem combined_output_counterexample:
  "contains (stdout (tool_says 2 [] ''A fatal error occurred: Failed to connect''
                      [''esptool'', ''--port'', ''COM3'', ''--baud'', ''115200'', ''flash_id''])
             @ stderr (tool_says 2 [] ''A fatal error occurred: Failed to connect''
                      [''esptool'', ''--port'', ''COM3'', ''--baud'', ''115200'', ''flash_id'']))
            NO_DEVICE_FOUND_TEXT
   \<and> \<not> contains (stdout (tool_says 2 [] ''A fatal error occurred: Failed to connect''
                      [''esptool'', ''--port'', ''COM3'', ''--baud'', ''115200'', ''flash_id''])
             @ stderr (tool_says 2 [] ''A fatal error occurred: Failed to connect''
                      [''esptool'', ''--port'', ''COM3'', ''--baud'', ''115200'', ''flash_id'']))
            BOOT_MODE_ERROR_TEXT
   \<and> fst (check_status (bench (tool_says 2 [] ''A fatal error occurred: Failed to connect'') [''COM3''])
            \<lparr>port = ''COM3''\<rparr> start) = Inr DEVICE_FOUND"
  by (simp add: bench_probe tool_says_def ascii_texts texts_classified)
     (simp add: BOOT_MODE_ERROR_TEXT_def NO_DEVICE_FOUND_TEXT_def)

text \<open>
  Claim C6, amended: the text is the standard output of the tool. Whenever \<^verbatim>\<open>check_status\<close> gets as
  far as running the tool and reading its output, it returns \<open>BOOT_MODE_ERROR\<close> when the boot-mode
  signature occurs in the standard output (also when the no-device signature occurs there as
  well), \<open>NO_DEVICE_FOUND\<close> when only the no-device signature occurs there, and \<open>DEVICE_FOUND\<close> when
  neither does. The exit code plays no part: with any other exit code the result and the state
  are the same, so a nonzero exit never makes it raise. What makes it raise is a baud rate that
  is not a string (\<^verbatim>\<open>TypeError\<close>, nothing is run) and output that is not UTF-8
  (\<^verbatim>\<open>UnicodeDecodeError\<close>).
\<close>

theorem check_status_classifies:
  "check_status e self s =
     (case BAUD_RATE e of
        Py_int n \<Rightarrow> (Inl TypeError, s)
      | Py_str baud \<Rightarrow>
          (case decode e (stdout (esptool e [''esptool'', ''--port'', port self, ''--baud'', baud, ''flash_id''])) of
             None \<Rightarrow>
               (Inl UnicodeDecodeError,
                s\<lparr>trace := trace s @ [Ran [''esptool'', ''--port'', port self, ''--baud'', baud, ''flash_id'']]\<rparr>)
           | Some text \<Rightarrow>
               (Inr (if sublist BOOT_MODE_ERROR_TEXT text then BOOT_MODE_ERROR
                     else if sublist NO_DEVICE_FOUND_TEXT text then NO_DEVICE_FOUND
                     else DEVICE_FOUND),
                s\<lparr>trace := trace s @ [Ran [''esptool'', ''--port'', port self, ''--baud'', baud, ''flash_id'']]\<rparr>)))
   \<and> check_status (e\<lparr>esptool := (\<lambda>args. (esptool e args)\<lparr>returncode := code\<rparr>)\<rparr>) self s
       = check_status e self s"
  by (simp add: check_status_run contains_sublist split: py_value.splits option.splits)

theorem check_status_classifies_witness:
  "check_status (bench (tool_says 2 BOOT_MODE_ERROR_TEXT []) [''COM3'']) \<lparr>port = ''COM3''\<rparr> start
     = (Inr BOOT_MODE_ERROR,
        start\<lparr>trace := [Ran [''esptool'', ''--port'', ''COM3'', ''--baud'', ''115200'', ''flash_id'']]\<rparr>)
   \<and> check_status (bench (tool_says 2 (NO_DEVICE_FOUND_TEXT @ BOOT_MODE_ERROR_TEXT) []) [''COM3''])
        \<lparr>port = ''COM3''\<rparr> start
     = (Inr BOOT_MODE_ERROR,
        start\<lparr>trace := [Ran [''esptool'', ''--port'', ''COM3'', ''--baud'', ''115200'', ''flash_id'']]\<rparr>)
   \<and> check_status (bench (tool_says 2 NO_DEVICE_FOUND_TEXT []) [''COM3'']) \<lparr>port = ''COM3''\<rparr> start
     = (Inr NO_DEVICE_FOUND,
        start\<lparr>trace := [Ran [''esptool'', ''--port'', ''COM3'', ''--baud'', ''115200'', ''flash_id'']]\<rparr>)
   \<and> check_status (bench (tool_says 1 ''esptool.py v4.7'' []) [''COM3'']) \<lparr>port = ''COM3''\<rparr> start
     = (Inr DEVICE_FOUND,
        start\<lparr>trace := [Ran [''esptool'', ''--port'', ''COM3'', ''--baud'', ''115200'', ''flash_id'']]\<rparr>)
   \<and> check_status ((bench (tool_says 0 [] []) [''COM3''])\<lparr>BAUD_RATE := Py_int 115200\<rparr>)
        \<lparr>port = ''COM3''\<rparr> start
     = (Inl TypeError, start)
   \<and> check_status (bench (tool_says 0 [CHR 0xFF] []) [''COM3'']) \<lparr>port = ''COM3''\<rparr> start
     = (Inl UnicodeDecodeError,
        start\<lparr>trace := [Ran [''esptool'', ''--port'', ''COM3'', ''--baud'', ''115200'', ''flash_id'']]\<rparr>)"
proof -
  have boot: "sublist BOOT_MODE_ERROR_TEXT BOOT_MODE_ERROR_TEXT"
    and both: "sublist BOOT_MODE_ERROR_TEXT (NO_DEVICE_FOUND_TEXT @ BOOT_MODE_ERROR_TEXT)"
    and nodev: "\<not> sublist BOOT_MODE_ERROR_TEXT NO_DEVICE_FOUND_TEXT"
      "sublist NO_DEVICE_FOUND_TEXT NO_DEVICE_FOUND_TEXT"
    and neither: "\<not> sublist BOOT_MODE_ERROR_TEXT ''esptool.py v4.7''"
      "\<not> sublist NO_DEVICE_FOUND_TEXT ''esptool.py v4.7''"
    unfolding contains_sublist [symmetric]
    by (simp_all add: BOOT_MODE_ERROR_TEXT_def NO_DEVICE_FOUND_TEXT_def)
  have dec: "ascii_decode (NO_DEVICE_FOUND_TEXT @ BOOT_MODE_ERROR_TEXT) = Some (NO_DEVICE_FOUND_TEXT @ BOOT_MODE_ERROR_TEXT)"
    "ascii_decode ''esptool.py v4.7'' = Some ''esptool.py v4.7''"
    "ascii_decode [CHR 0xFF] = None"
    by (simp_all add: ascii_decode_def BOOT_MODE_ERROR_TEXT_def NO_DEVICE_FOUND_TEXT_def)
  show ?thesis
    using check_status_classifies [of "bench (tool_says 2 BOOT_MODE_ERROR_TEXT []) [''COM3'']" "\<lparr>port = ''COM3''\<rparr>" start]
      check_status_classifies [of "bench (tool_says 2 (NO_DEVICE_FOUND_TEXT @ BOOT_MODE_ERROR_TEXT) []) [''COM3'']" "\<lparr>port = ''COM3''\<rparr>" start]
      check_status_classifies [of "bench (tool_says 2 NO_DEVICE_FOUND_TEXT []) [''COM3'']" "\<lparr>port = ''COM3''\<rparr>" start]
      check_status_classifies [of "bench (tool_says 1 ''esptool.py v4.7'' []) [''COM3'']" "\<lparr>port = ''COM3''\<rparr>" start]
      check_status_classifies [of "(bench (tool_says 0 [] []) [''COM3''])\<lparr>BAUD_RATE := Py_int 115200\<rparr>" "\<lparr>port = ''COM3''\<rparr>" start]
      check_status_classifies [of "bench (tool_says 0 [CHR 0xFF] []) [''COM3'']" "\<lparr>port = ''COM3''\<rparr>" start]
    by (simp add: bench_def tool_says_def ascii_texts dec boot both nodev neither start_def)
qed

text \<open>
  Claim C7, as stated: the classification reflects a signature that appears in either stream of
  the tool. It does not: with the boot-mode signature on the error stream only, the combined
  text contains the signature and the status is \<open>DEVICE_FOUND\<close>.
\<close>

theorem stderr_signature_counterexample:
  "contains (stdout (tool_stderr_only [''esptool'', ''--port'', ''COM3'', ''--baud'', ''115200'', ''flash_id''])
             @ stderr (tool_stderr_only [''esptool'', ''--port'', ''COM3'', ''--baud'', ''115200'', ''flash_id'']))
            BOOT_MODE_ERROR_TEXT
   \<and> fst (check_status (bench tool_stderr_only [''COM3'']) \<lparr>port = ''COM3''\<rparr> start) = Inr DEVICE_FOUND"
  by (simp add: bench_probe tool_stderr_only_def ascii_texts)
     (simp add: BOOT_MODE_ERROR_TEXT_def NO_DEVICE_FOUND_TEXT_def)

text \<open>
  Claim C7, amended: the classification is determined by the standard output of the tool alone.
  A signature (boot-mode or no-device) that appears in the decoded standard output is reflected
  in the status, the boot-mode one first; what the tool writes on its error stream is not
  examined: with any other error output the result and the state are the same.
\<close>

theorem check_status_stdout_only:
  "(BAUD_RATE e = Py_str baud
      \<and> decode e (stdout (esptool e [''esptool'', ''--port'', port self, ''--baud'', baud, ''flash_id''])) = Some text
    \<longrightarrow> fst (check_status e self s)
          = Inr (if sublist BOOT_MODE_ERROR_TEXT text then BOOT_MODE_ERROR
                 else if sublist NO_DEVICE_FOUND_TEXT text then NO_DEVICE_FOUND
                 else DEVICE_FOUND))
   \<and> check_status (e\<lparr>esptool := (\<lambda>args. (esptool e args)\<lparr>stderr := err\<rparr>)\<rparr>) self s
       = check_status e self s"
  by (simp add: check_status_run contains_sublist split: py_value.splits option.splits)

theorem check_status_stdout_only_witness:
  "BAUD_RATE (bench (tool_says 2 BOOT_MODE_ERROR_TEXT NO_DEVICE_FOUND_TEXT) [''COM3'']) = Py_str ''115200''
   \<and> decode (bench (tool_says 2 BOOT_MODE_ERROR_TEXT NO_DEVICE_FOUND_TEXT) [''COM3''])
        (stdout (esptool (bench (tool_says 2 BOOT_MODE_ERROR_TEXT NO_DEVICE_FOUND_TEXT) [''COM3''])
           [''esptool'', ''--port'', port \<lparr>port = ''COM3''\<rparr>, ''--baud'', ''115200'', ''flash_id'']))
       = Some BOOT_MODE_ERROR_TEXT
   \<and> fst (check_status (bench (tool_says 2 BOOT_MODE_ERROR_TEXT NO_DEVICE_FOUND_TEXT) [''COM3''])
            \<lparr>port = ''COM3''\<rparr> start) = Inr BOOT_MODE_ERROR
   \<and> BAUD_RATE (bench (tool_says 2 NO_DEVICE_FOUND_TEXT BOOT_MODE_ERROR_TEXT) [''COM3'']) = Py_str ''115200''
   \<and> decode (bench (tool_says 2 NO_DEVICE_FOUND_TEXT BOOT_MODE_ERROR_TEXT) [''COM3''])
        (stdout (esptool (bench (tool_says 2 NO_DEVICE_FOUND_TEXT BOOT_MODE_ERROR_TEXT) [''COM3''])
           [''esptool'', ''--port'', port \<lparr>port = ''COM3''\<rparr>, ''--baud'', ''115200'', ''flash_id'']))
       = Some NO_DEVICE_FOUND_TEXT
   \<and> fst (check_status (bench (tool_says 2 NO_DEVICE_FOUND_TEXT BOOT_MODE_ERROR_TEXT) [''COM3''])
            \<lparr>port = ''COM3''\<rparr> start) = Inr NO_DEVICE_FOUND
   \<and> check_status ((bench (tool_says 2 NO_DEVICE_FOUND_TEXT []) [''COM3''])
          \<lparr>esptool := (\<lambda>args. (esptool (bench (tool_says 2 NO_DEVICE_FOUND_TEXT []) [''COM3'']) args)
                                  \<lparr>stderr := BOOT_MODE_ERROR_TEXT\<rparr>)\<rparr>)
        \<lparr>port = ''COM3''\<rparr> start
       = check_status (bench (tool_says 2 NO_DEVICE_FOUND_TEXT []) [''COM3'']) \<lparr>port = ''COM3''\<rparr> start"
proof -
  let ?e1 = "bench (tool_says 2 BOOT_MODE_ERROR_TEXT NO_DEVICE_FOUND_TEXT) [''COM3'']"
  let ?e2 = "bench (tool_says 2 NO_DEVICE_FOUND_TEXT BOOT_MODE_ERROR_TEXT) [''COM3'']"
  let ?e3 = "bench (tool_says 2 NO_DEVICE_FOUND_TEXT []) [''COM3'']"
  have sub: "sublist BOOT_MODE_ERROR_TEXT BOOT_MODE_ERROR_TEXT"
    "\<not> sublist BOOT_MODE_ERROR_TEXT NO_DEVICE_FOUND_TEXT"
    "sublist NO_DEVICE_FOUND_TEXT NO_DEVICE_FOUND_TEXT"
    unfolding contains_sublist [symmetric] by (simp_all add: texts_classified)
  have h1: "BAUD_RATE ?e1 = Py_str ''115200''
      \<and> decode ?e1 (stdout (esptool ?e1 [''esptool'', ''--port'', port \<lparr>port = ''COM3''\<rparr>, ''--baud'', ''115200'', ''flash_id'']))
          = Some BOOT_MODE_ERROR_TEXT"
    by (simp add: bench_def tool_says_def ascii_texts)
  have h2: "BAUD_RATE ?e2 = Py_str ''115200''
      \<and> decode ?e2 (stdout (esptool ?e2 [''esptool'', ''--port'', port \<lparr>port = ''COM3''\<rparr>, ''--baud'', ''115200'', ''flash_id'']))
          = Some NO_DEVICE_FOUND_TEXT"
    by (simp add: bench_def tool_says_def ascii_texts)
  from check_status_stdout_only [of ?e1 "''115200''" "\<lparr>port = ''COM3''\<rparr>" BOOT_MODE_ERROR_TEXT start] h1
  have r1: "fst (check_status ?e1 \<lparr>port = ''COM3''\<rparr> start) = Inr BOOT_MODE_ERROR"
    by (simp add: sub)
  from check_status_stdout_only [of ?e2 "''115200''" "\<lparr>port = ''COM3''\<rparr>" NO_DEVICE_FOUND_TEXT start] h2
  have r2: "fst (check_status ?e2 \<lparr>port = ''COM3''\<rparr> start) = Inr NO_DEVICE_FOUND"
    by (simp add: sub)
  from check_status_stdout_only [of ?e3 _ "\<lparr>port = ''COM3''\<rparr>" _ start BOOT_MODE_ERROR_TEXT]
  have r3: "check_status (?e3\<lparr>esptool := (\<lambda>args. (esptool ?e3 args)\<lparr>stderr := BOOT_MODE_ERROR_TEXT\<rparr>)\<rparr>)
        \<lparr>port = ''COM3''\<rparr> start = check_status ?e3 \<lparr>port = ''COM3''\<rparr> start"
    by blast
  from h1 h2 r1 r2 r3 show ?thesis
    by blast
qed

text \<open>
  Claim C10. The write operation used for \<^verbatim>\<open>.bin\<close> entries (\<^verbatim>\<open>upload_program\<close>) and the one used for
  all other entries (\<^verbatim>\<open>upload_file\<close>) are equal: for every device, address, path and state they run
  the same command and end with the same result and the same state.
\<close>

theorem write_operations_equal:
  "upload_file e self address file_path s = upload_program e self address file_path s"
  by (simp add: upload_file_def upload_program_def)

subsection \<open>The guard of the upload\<close>

text \<open>
  Claim C9. When the stored status is anything but \<open>DEVICE_FOUND\<close> (also when it is still unset),
  \<^verbatim>\<open>upload_zip_folder\<close> returns \<^verbatim>\<open>False\<close> and leaves the state as it is: no dialog, no archive, no
  process.
\<close>

theorem upload_guard:
  "current_status s \<noteq> Some DEVICE_FOUND \<Longrightarrow> upload_zip_folder e s = (Inr False, s)"
  by (simp add: upload_zip_folder_def)

theorem upload_guard_witness:
  "current_status start \<noteq> Some DEVICE_FOUND
   \<and> upload_zip_folder (bench tool_ok [''COM3'']) start = (Inr False, start)
   \<and> current_status (start\<lparr>current_status := Some BOOT_MODE_ERROR\<rparr>) \<noteq> Some DEVICE_FOUND
   \<and> upload_zip_folder (bench tool_ok [''COM3'']) (start\<lparr>current_status := Some BOOT_MODE_ERROR\<rparr>)
       = (Inr False, start\<lparr>current_status := Some BOOT_MODE_ERROR\<rparr>)"
proof -
  have a: "current_status start \<noteq> Some DEVICE_FOUND"
    by (simp add: start_def)
  have b: "current_status (start\<lparr>current_status := Some BOOT_MODE_ERROR\<rparr>) \<noteq> Some DEVICE_FOUND"
    by simp
  show ?thesis
    using a b upload_guard [OF a, of "bench tool_ok [''COM3'']"] upload_guard [OF b, of "bench tool_ok [''COM3'']"]
    by simp
qed

subsection \<open>The device resolver\<close>

lemma check_status_split:
  "fst (check_status e self s0) = Inr status \<Longrightarrow>
   check_status e self s =
     (Inr status, s\<lparr>trace := trace s @ [Ran (flash_id_cmd e (port self))]\<rparr>)"
  by (auto simp: check_status_run split: py_value.splits option.splits)

lemma get_device_loop_skip:
  "\<forall>q\<in>set ps. fst (check_status e \<lparr>port = q\<rparr> s0) = Inr NO_DEVICE_FOUND \<Longrightarrow>
   get_device_loop e (ps @ rest) s =
     get_device_loop e rest (s\<lparr>trace := trace s @ map (\<lambda>q. Ran (flash_id_cmd e q)) ps\<rparr>)"
proof (induction ps arbitrary: s)
  case Nil
  then show ?case by simp
next
  case (Cons q ps)
  have step: "check_status e \<lparr>port = q\<rparr> s =
      (Inr NO_DEVICE_FOUND, s\<lparr>trace := trace s @ [Ran (flash_id_cmd e q)]\<rparr>)"
    using Cons.prems check_status_split [of e "\<lparr>port = q\<rparr>" s0 NO_DEVICE_FOUND s] by simp
  have rest: "\<forall>q\<in>set ps. fst (check_status e \<lparr>port = q\<rparr> s0) = Inr NO_DEVICE_FOUND"
    using Cons.prems by simp
  show ?case
    by (simp add: step Cons.IH [OF rest])
qed

lemma get_device_loop_decides:
  assumes "fst (check_status e \<lparr>port = p\<rparr> s0) = Inr status" and "status \<noteq> NO_DEVICE_FOUND"
  shows "get_device_loop e (p # rest) s =
     (Inr (if status = DEVICE_FOUND then Some \<lparr>port = p\<rparr> else None, status),
      s\<lparr>trace := trace s @ [Ran (flash_id_cmd e p)]\<rparr>)"
proof -
  have step: "check_status e \<lparr>port = p\<rparr> s = (Inr status, s\<lparr>trace := trace s @ [Ran (flash_id_cmd e p)]\<rparr>)"
    using assms(1) check_status_split [of e "\<lparr>port = p\<rparr>" s0 status s] by simp
  show ?thesis
    using assms(2) by (cases status) (simp_all add: step)
qed

text \<open>
  Claim C5. \<^verbatim>\<open>get_device\<close> probes the ports in order. It returns the device of the first port
  whose probe gives \<open>DEVICE_FOUND\<close>; it returns no device and \<open>BOOT_MODE_ERROR\<close> at the first port
  whose probe gives that, whatever the ports after it are; it goes on past a port whose probe
  gives \<open>NO_DEVICE_FOUND\<close>; and it returns no device and \<open>NO_DEVICE_FOUND\<close> when every port gives that
  or there is no port. The trace shows that the ports after the deciding one are not probed.
  (The answer of a probe does not depend on the state, see \<open>check_status_split\<close>.)
\<close>

theorem get_device_resolves:
  "(comports e = ps @ p # rest
      \<and> (\<forall>q\<in>set ps. fst (check_status e \<lparr>port = q\<rparr> s) = Inr NO_DEVICE_FOUND)
      \<and> fst (check_status e \<lparr>port = p\<rparr> s) = Inr DEVICE_FOUND
    \<longrightarrow> get_device e s =
          (Inr (Some \<lparr>port = p\<rparr>, DEVICE_FOUND),
           s\<lparr>trace := trace s @ map (\<lambda>q. Ran (flash_id_cmd e q)) (ps @ [p])\<rparr>))
   \<and> (comports e = ps @ p # rest
      \<and> (\<forall>q\<in>set ps. fst (check_status e \<lparr>port = q\<rparr> s) = Inr NO_DEVICE_FOUND)
      \<and> fst (check_status e \<lparr>port = p\<rparr> s) = Inr BOOT_MODE_ERROR
    \<longrightarrow> get_device e s =
          (Inr (None, BOOT_MODE_ERROR),
           s\<lparr>trace := trace s @ map (\<lambda>q. Ran (flash_id_cmd e q)) (ps @ [p])\<rparr>))
   \<and> ((\<forall>q\<in>set (comports e). fst (check_status e \<lparr>port = q\<rparr> s) = Inr NO_DEVICE_FOUND)
    \<longrightarrow> get_device e s =
          (Inr (None, NO_DEVICE_FOUND),
           s\<lparr>trace := trace s @ map (\<lambda>q. Ran (flash_id_cmd e q)) (comports e)\<rparr>))"
proof (intro conjI impI)
  assume h: "comports e = ps @ p # rest
      \<and> (\<forall>q\<in>set ps. fst (check_status e \<lparr>port = q\<rparr> s) = Inr NO_DEVICE_FOUND)
      \<and> fst (check_status e \<lparr>port = p\<rparr> s) = Inr DEVICE_FOUND"
  then have skip: "\<forall>q\<in>set ps. fst (check_status e \<lparr>port = q\<rparr> s) = Inr NO_DEVICE_FOUND"
    and hit: "fst (check_status e \<lparr>port = p\<rparr> s) = Inr DEVICE_FOUND"
    by simp_all
  show "get_device e s =
          (Inr (Some \<lparr>port = p\<rparr>, DEVICE_FOUND),
           s\<lparr>trace := trace s @ map (\<lambda>q. Ran (flash_id_cmd e q)) (ps @ [p])\<rparr>)"
    using h by (simp add: get_device_def get_device_loop_skip [OF skip] get_device_loop_decides [OF hit]
        del: get_device_loop.simps)
next
  assume h: "comports e = ps @ p # rest
      \<and> (\<forall>q\<in>set ps. fst (check_status e \<lparr>port = q\<rparr> s) = Inr NO_DEVICE_FOUND)
      \<and> fst (check_status e \<lparr>port = p\<rparr> s) = Inr BOOT_MODE_ERROR"
  then have skip: "\<forall>q\<in>set ps. fst (check_status e \<lparr>port = q\<rparr> s) = Inr NO_DEVICE_FOUND"
    and hit: "fst (check_status e \<lparr>port = p\<rparr> s) = Inr BOOT_MODE_ERROR"
    by simp_all
  show "get_device e s =
          (Inr (None, BOOT_MODE_ERROR),
           s\<lparr>trace := trace s @ map (\<lambda>q. Ran (flash_id_cmd e q)) (ps @ [p])\<rparr>)"
    using h by (simp add: get_device_def get_device_loop_skip [OF skip] get_device_loop_decides [OF hit]
        del: get_device_loop.simps)
next
  assume skip: "\<forall>q\<in>set (comports e). fst (check_status e \<lparr>port = q\<rparr> s) = Inr NO_DEVICE_FOUND"
  show "get_device e s =
          (Inr (None, NO_DEVICE_FOUND),
           s\<lparr>trace := trace s @ map (\<lambda>q. Ran (flash_id_cmd e q)) (comports e)\<rparr>)"
    using get_device_loop_skip [OF skip, of "[]" s] by (simp add: get_device_def)
qed

lemma probe_by_port:
  "fst (check_status (bench (tool_by_port outs) ports) \<lparr>port = p\<rparr> s) =
     (case map_of outs p of
        None \<Rightarrow> Inr DEVICE_FOUND
      | Some out \<Rightarrow>
          (case ascii_decode out of
             None \<Rightarrow> Inl UnicodeDecodeError
           | Some text \<Rightarrow>
               Inr (if contains text BOOT_MODE_ERROR_TEXT then BOOT_MODE_ERROR
                    else if contains text NO_DEVICE_FOUND_TEXT then NO_DEVICE_FOUND else DEVICE_FOUND)))"
  by (auto simp: bench_probe tool_by_port_def ascii_texts BOOT_MODE_ERROR_TEXT_def
      NO_DEVICE_FOUND_TEXT_def split: option.splits)

theorem get_device_resolves_witness:
  "fst (check_status (bench (tool_by_port [(''A'', NO_DEVICE_FOUND_TEXT), (''B'', BOOT_MODE_ERROR_TEXT)]) [''A'', ''B'', ''C''])
          \<lparr>port = ''C''\<rparr> start) = Inr DEVICE_FOUND
   \<and> get_device (bench (tool_by_port [(''A'', NO_DEVICE_FOUND_TEXT), (''B'', BOOT_MODE_ERROR_TEXT)]) [''A'', ''B'', ''C'']) start
       = (Inr (None, BOOT_MODE_ERROR),
          start\<lparr>trace := [Ran [''esptool'', ''--port'', ''A'', ''--baud'', ''115200'', ''flash_id''],
                           Ran [''esptool'', ''--port'', ''B'', ''--baud'', ''115200'', ''flash_id'']]\<rparr>)
   \<and> get_device (bench (tool_by_port [(''A'', NO_DEVICE_FOUND_TEXT)]) [''A'', ''B'']) start
       = (Inr (Some \<lparr>port = ''B''\<rparr>, DEVICE_FOUND),
          start\<lparr>trace := [Ran [''esptool'', ''--port'', ''A'', ''--baud'', ''115200'', ''flash_id''],
                           Ran [''esptool'', ''--port'', ''B'', ''--baud'', ''115200'', ''flash_id'']]\<rparr>)
   \<and> get_device (bench tool_ok []) start = (Inr (None, NO_DEVICE_FOUND), start)
   \<and> get_device (bench (tool_by_port [(''A'', NO_DEVICE_FOUND_TEXT)]) [''A'']) start
       = (Inr (None, NO_DEVICE_FOUND),
          start\<lparr>trace := [Ran [''esptool'', ''--port'', ''A'', ''--baud'', ''115200'', ''flash_id'']]\<rparr>)"
proof -
  let ?e1 = "bench (tool_by_port [(''A'', NO_DEVICE_FOUND_TEXT), (''B'', BOOT_MODE_ERROR_TEXT)]) [''A'', ''B'', ''C'']"
  let ?e2 = "bench (tool_by_port [(''A'', NO_DEVICE_FOUND_TEXT)]) [''A'', ''B'']"
  let ?e3 = "bench tool_ok []"
  let ?e4 = "bench (tool_by_port [(''A'', NO_DEVICE_FOUND_TEXT)]) [''A'']"
  have c: "fst (check_status ?e1 \<lparr>port = ''C''\<rparr> start) = Inr DEVICE_FOUND"
    by (simp add: probe_by_port ascii_texts)
  have h1: "comports ?e1 = [''A''] @ ''B'' # [''C'']
      \<and> (\<forall>q\<in>set [''A'']. fst (check_status ?e1 \<lparr>port = q\<rparr> start) = Inr NO_DEVICE_FOUND)
      \<and> fst (check_status ?e1 \<lparr>port = ''B''\<rparr> start) = Inr BOOT_MODE_ERROR"
    by (simp add: probe_by_port texts_classified ascii_texts) (simp add: bench_def)
  have h2: "comports ?e2 = [''A''] @ ''B'' # []
      \<and> (\<forall>q\<in>set [''A'']. fst (check_status ?e2 \<lparr>port = q\<rparr> start) = Inr NO_DEVICE_FOUND)
      \<and> fst (check_status ?e2 \<lparr>port = ''B''\<rparr> start) = Inr DEVICE_FOUND"
    by (simp add: probe_by_port texts_classified ascii_texts) (simp add: bench_def)
  have h3: "\<forall>q\<in>set (comports ?e3). fst (check_status ?e3 \<lparr>port = q\<rparr> start) = Inr NO_DEVICE_FOUND"
    by (simp add: bench_def)
  have h4: "\<forall>q\<in>set (comports ?e4). fst (check_status ?e4 \<lparr>port = q\<rparr> start) = Inr NO_DEVICE_FOUND"
    by (simp add: probe_by_port texts_classified ascii_texts) (simp add: bench_def probe_by_port texts_classified ascii_texts)
  have r1: "get_device ?e1 start = (Inr (None, BOOT_MODE_ERROR),
      start\<lparr>trace := trace start @ map (\<lambda>q. Ran (flash_id_cmd ?e1 q)) ([''A''] @ [''B''])\<rparr>)"
    using get_device_resolves [of ?e1 "[''A'']" "''B''" "[''C'']" start] h1 by blast
  have r2: "get_device ?e2 start = (Inr (Some \<lparr>port = ''B''\<rparr>, DEVICE_FOUND),
      start\<lparr>trace := trace start @ map (\<lambda>q. Ran (flash_id_cmd ?e2 q)) ([''A''] @ [''B''])\<rparr>)"
    using get_device_resolves [of ?e2 "[''A'']" "''B''" "[]" start] h2 by blast
  have r3: "get_device ?e3 start = (Inr (None, NO_DEVICE_FOUND),
      start\<lparr>trace := trace start @ map (\<lambda>q. Ran (flash_id_cmd ?e3 q)) (comports ?e3)\<rparr>)"
    using get_device_resolves [of ?e3 "[]" "''B''" "[]" start] h3 by blast
  have r4: "get_device ?e4 start = (Inr (None, NO_DEVICE_FOUND),
      start\<lparr>trace := trace start @ map (\<lambda>q. Ran (flash_id_cmd ?e4 q)) (comports ?e4)\<rparr>)"
    using get_device_resolves [of ?e4 "[]" "''B''" "[]" start] h4 by blast
  show ?thesis
    unfolding r1 r2 r3 r4 using c by (simp add: bench_def start_def)
qed

subsection \<open>One round of the upload loop\<close>

lemma upload_program_run:
  "upload_program e d a p s =
     (if returncode (esptool e (write_flash_cmd e d a p)) \<noteq> 0
      then Inl (CalledProcessError (write_flash_cmd e d a p)) else Inr (),
      s\<lparr>trace := trace s @ [Ran (write_flash_cmd e d a p)]\<rparr>)"
  by (simp add: upload_program_def subprocess_run_def Let_def)

lemma upload_file_run:
  "upload_file e d a p s =
     (if returncode (esptool e (write_flash_cmd e d a p)) \<noteq> 0
      then Inl (CalledProcessError (write_flash_cmd e d a p)) else Inr (),
      s\<lparr>trace := trace s @ [Ran (write_flash_cmd e d a p)]\<rparr>)"
  by (simp add: upload_file_def subprocess_run_def Let_def)

lemma temp_path_of_error: "temp_path_of name = Inl err \<Longrightarrow> err = ValueError"
  by (auto simp: temp_path_of_def split: option.splits)

lemma upload_loop_skip:
  "filename x = ''/'' \<Longrightarrow> upload_loop e d (x # rest) a s = upload_loop e d rest a s"
  by simp

lemma upload_loop_no_dot:
  "filename x \<noteq> ''/'' \<Longrightarrow> temp_path_of (filename x) = Inl err \<Longrightarrow>
   upload_loop e d (x # rest) a s = (Inl ValueError, s)"
  using temp_path_of_error [of "filename x" err] by simp

lemma upload_loop_fail:
  "filename x \<noteq> ''/'' \<Longrightarrow> temp_path_of (filename x) = Inr tp \<Longrightarrow>
   returncode (esptool e (write_flash_cmd e d a tp)) \<noteq> 0 \<Longrightarrow>
   upload_loop e d (x # rest) a s =
     (Inl (CalledProcessError (write_flash_cmd e d a tp)),
      s\<lparr>files := (files s)(tp \<mapsto> content x), trace := trace s @ [Ran (write_flash_cmd e d a tp)]\<rparr>)"
  by (simp add: upload_program_run upload_file_run write_file_def Let_def)

lemma upload_loop_ok:
  "filename x \<noteq> ''/'' \<Longrightarrow> temp_path_of (filename x) = Inr tp \<Longrightarrow>
   returncode (esptool e (write_flash_cmd e d a tp)) = 0 \<Longrightarrow>
   upload_loop e d (x # rest) a s =
     upload_loop e d rest (next_address a (int (length (content x))))
       (s\<lparr>trace := trace s @ [Ran (write_flash_cmd e d a tp)], files := (files s)(tp := None)\<rparr>)"
  by (simp add: upload_program_run upload_file_run write_file_def getsize_def remove_file_def Let_def)

text \<open>The four ways one round of the loop can go.\<close>

lemma upload_loop_Cons_cases [case_names skip no_dot fail ok]:
  obtains
    (skip) "filename x = ''/''"
      and "\<forall>rest. upload_loop e d (x # rest) a s = upload_loop e d rest a s"
  | (no_dot) "filename x \<noteq> ''/''" and "temp_path_of (filename x) = Inl ValueError"
      and "\<forall>rest. upload_loop e d (x # rest) a s = (Inl ValueError, s)"
  | (fail) tp where "filename x \<noteq> ''/''" and "temp_path_of (filename x) = Inr tp"
      and "returncode (esptool e (write_flash_cmd e d a tp)) \<noteq> 0"
      and "\<forall>rest. upload_loop e d (x # rest) a s =
            (Inl (CalledProcessError (write_flash_cmd e d a tp)),
             s\<lparr>files := (files s)(tp \<mapsto> content x), trace := trace s @ [Ran (write_flash_cmd e d a tp)]\<rparr>)"
  | (ok) tp where "filename x \<noteq> ''/''" and "temp_path_of (filename x) = Inr tp"
      and "returncode (esptool e (write_flash_cmd e d a tp)) = 0"
      and "\<forall>rest. upload_loop e d (x # rest) a s =
            upload_loop e d rest (next_address a (int (length (content x))))
              (s\<lparr>trace := trace s @ [Ran (write_flash_cmd e d a tp)], files := (files s)(tp := None)\<rparr>)"
proof (cases "filename x = ''/''")
  case True
  then show ?thesis using skip upload_loop_skip by blast
next
  case nosep: False
  show ?thesis
  proof (cases "temp_path_of (filename x)")
    case (Inl err)
    then show ?thesis using no_dot nosep upload_loop_no_dot temp_path_of_error by blast
  next
    case (Inr tp)
    show ?thesis
    proof (cases "returncode (esptool e (write_flash_cmd e d a tp)) = 0")
      case True
      then show ?thesis using ok [OF nosep Inr] upload_loop_ok [OF nosep Inr] by blast
    next
      case False
      then show ?thesis using fail [OF nosep Inr] upload_loop_fail [OF nosep Inr] by blast
    qed
  qed
qed

declare upload_loop.simps(2) [simp del]

lemma upload_loop_filter:
  "upload_loop e d es a s = upload_loop e d [x \<leftarrow> es. filename x \<noteq> ''/''] a s"
proof (induction es arbitrary: a s)
  case Nil
  then show ?case by simp
next
  case (Cons x es)
  show ?case
  proof (cases rule: upload_loop_Cons_cases [of x e d a s])
    case skip
    then show ?thesis using Cons.IH by simp
  next
    case no_dot
    then show ?thesis by simp
  next
    case (fail tp)
    then show ?thesis by simp
  next
    case (ok tp)
    then show ?thesis using Cons.IH by simp
  qed
qed

lemma file_list_of_filter:
  "[x \<leftarrow> file_list_of filelist. P x] = file_list_of [x \<leftarrow> filelist. P x]"
  by (simp add: file_list_of_def conj_commute)

subsection \<open>Entries that are skipped\<close>

lemma temp_path_of_empty: "temp_path_of [] = Inl ValueError"
  by (simp add: temp_path_of_def)

text \<open>
  Claim C4, amended. An entry whose name is the path separator \<^verbatim>\<open>/\<close> is left out altogether: the
  upload of an archive goes exactly as the upload of the archive without such entries (the same
  commands at the same addresses, the same files, the same result). An entry with the empty
  name is not left out: when the loop reaches it, line 219 raises \<^verbatim>\<open>ValueError\<close> and the upload
  ends there. (A name that is \<^verbatim>\<open>None\<close> does not occur in an archive.)
\<close>

theorem separator_entries_excluded:
  "upload_loop e device (file_list_of filelist) a s
     = upload_loop e device (file_list_of [x \<leftarrow> filelist. filename x \<noteq> ''/'']) a s
   \<and> (filename x = [] \<longrightarrow> upload_loop e device (x # rest) a s = (Inl ValueError, s))"
proof
  show "upload_loop e device (file_list_of filelist) a s
     = upload_loop e device (file_list_of [x \<leftarrow> filelist. filename x \<noteq> ''/'']) a s"
    using upload_loop_filter [of e device "file_list_of filelist" a s]
    by (simp add: file_list_of_filter)
  show "filename x = [] \<longrightarrow> upload_loop e device (x # rest) a s = (Inl ValueError, s)"
    by (simp add: upload_loop_no_dot temp_path_of_empty)
qed

lemma temp_path_examples:
  "temp_path_of ''a.txt'' = Inr ''temp.txt''"
  "temp_path_of ''b.bin'' = Inr ''temp.bin''"
  "temp_path_of ''x.bin'' = Inr ''temp.bin''"
  "temp_path_of ''y.bin'' = Inr ''temp.bin''"
  by (simp_all add: temp_path_of_def)

lemma file_list_examples:
  "file_list_of [file_of ''a.txt'' n, file_of ''b.bin'' m, file_of ''/'' k]
     = [file_of ''b.bin'' m, file_of ''a.txt'' n, file_of ''/'' k]"
  "file_list_of [file_of [] k, file_of ''a.txt'' n] = [file_of [] k, file_of ''a.txt'' n]"
  "file_list_of [file_of ''a.txt'' n] = [file_of ''a.txt'' n]"
  "file_list_of [file_of ''/'' k, file_of ''a.txt'' n] = [file_of ''/'' k, file_of ''a.txt'' n]"
  "file_list_of [file_of ''x.bin'' n, file_of ''y.bin'' m] = [file_of ''x.bin'' n, file_of ''y.bin'' m]"
  "file_list_of [file_of ''b.bin'' m] = [file_of ''b.bin'' m]"
  by (simp_all add: file_list_of_def file_of_def endswith_def)

lemma file_of_sel: "filename (file_of name n) = name" "content (file_of name n) = replicate n 0"
  by (simp_all add: file_of_def)

lemma tool_ok_run: "returncode (esptool (bench tool_ok ports) args) = 0"
  by (simp add: bench_def tool_ok_def)

lemma a_txt_alone:
  "upload_loop (bench tool_ok [''COM3'']) \<lparr>port = ''COM3''\<rparr> [file_of ''a.txt'' 10] 0x0 start
     = (Inr 0x1000,
        start\<lparr>trace := [Ran [''esptool'', ''--port'', ''COM3'', ''--baud'', ''115200'', ''write_flash'',
                              ''--flash_size=detect'', ''0x0'', ''temp.txt'']]\<rparr>)"
proof -
  have "upload_loop (bench tool_ok [''COM3'']) \<lparr>port = ''COM3''\<rparr> [file_of ''a.txt'' 10] 0x0 start
     = (Inr (next_address 0 10),
        start\<lparr>trace := trace start @ [Ran (write_flash_cmd (bench tool_ok [''COM3'']) \<lparr>port = ''COM3''\<rparr> 0 ''temp.txt'')],
               files := (files start)(''temp.txt'' := None)\<rparr>)"
    by (subst upload_loop_ok [where tp = "''temp.txt''"])
       (simp_all add: file_of_sel temp_path_examples tool_ok_run)
  then show ?thesis
    by (simp add: next_address_def CHUNK_SIZE_def hex_0 bench_def start_def)
qed

text \<open>
  Claim C4, as stated: an entry with the empty name is excluded. It is not: an archive with such
  an entry before \<^verbatim>\<open>a.txt\<close> ends in \<^verbatim>\<open>ValueError\<close> with nothing uploaded, whereas without the entry
  \<^verbatim>\<open>a.txt\<close> is written at address 0.
\<close>

theorem empty_name_counterexample:
  "upload_loop (bench tool_ok [''COM3'']) \<lparr>port = ''COM3''\<rparr>
       (file_list_of [file_of [] 0, file_of ''a.txt'' 10]) 0x0 start
     = (Inl ValueError, start)
   \<and> upload_loop (bench tool_ok [''COM3'']) \<lparr>port = ''COM3''\<rparr>
       (file_list_of [file_of ''a.txt'' 10]) 0x0 start
     = (Inr 0x1000,
        start\<lparr>trace := [Ran [''esptool'', ''--port'', ''COM3'', ''--baud'', ''115200'', ''write_flash'',
                              ''--flash_size=detect'', ''0x0'', ''temp.txt'']]\<rparr>)"
  by (simp add: file_list_examples a_txt_alone upload_loop_no_dot file_of_sel temp_path_of_empty)

theorem separator_entries_excluded_witness:
  "upload_loop (bench tool_ok [''COM3'']) \<lparr>port = ''COM3''\<rparr>
       (file_list_of [file_of ''/'' 0, file_of ''a.txt'' 10]) 0x0 start
     = (Inr 0x1000,
        start\<lparr>trace := [Ran [''esptool'', ''--port'', ''COM3'', ''--baud'', ''115200'', ''write_flash'',
                              ''--flash_size=detect'', ''0x0'', ''temp.txt'']]\<rparr>)
   \<and> filename (file_of [] 0) = []
   \<and> upload_loop (bench tool_ok [''COM3'']) \<lparr>port = ''COM3''\<rparr> [file_of [] 0, file_of ''a.txt'' 10] 0x0 start
     = (Inl ValueError, start)"
  using separator_entries_excluded [of "bench tool_ok [''COM3'']" "\<lparr>port = ''COM3''\<rparr>"
      "[file_of ''/'' 0, file_of ''a.txt'' 10]" 0 start "file_of [] 0" "[file_of ''a.txt'' 10]"]
  by (simp add: file_of_sel file_list_examples a_txt_alone)

subsection \<open>The order of the upload\<close>

lemma partition_order:
  assumes bs: "\<forall>x\<in>set bs. P x" and os: "\<forall>x\<in>set os. \<not> P x"
    and ij: "i < j" and j: "j < length (bs @ os)" and Pj: "P ((bs @ os) ! j)"
  shows "P ((bs @ os) ! i)"
proof -
  have "j < length bs"
  proof (rule ccontr)
    assume "\<not> j < length bs"
    then have "(bs @ os) ! j = os ! (j - length bs)" and "j - length bs < length os"
      using j by (simp_all add: nth_append)
    then have "(bs @ os) ! j \<in> set os" by simp
    with os Pj show False by blast
  qed
  with ij have "i < length bs" by simp
  then have "(bs @ os) ! i \<in> set bs" by (simp add: nth_append)
  with bs show ?thesis by blast
qed

text \<open>
  Claim C8. The list \<^verbatim>\<open>file_list\<close> of lines 203-204 is a stable partition of the archive's
  entries: an entry whose name ends with \<^verbatim>\<open>.bin\<close> never comes after one whose name does not, and
  the entries of each of the two groups are those of the archive, in the archive's order. (The
  loop walks this list in order and leaves out the \<^verbatim>\<open>/\<close> entries, which by \<open>file_list_of_filter\<close>
  gives the list built from the archive without them, so the same holds for what is uploaded.)
\<close>

theorem file_list_stable_partition:
  "(\<forall>i j. i < j \<and> j < length (file_list_of filelist)
           \<and> suffix ''.bin'' (filename (file_list_of filelist ! j))
         \<longrightarrow> suffix ''.bin'' (filename (file_list_of filelist ! i)))
   \<and> [x \<leftarrow> file_list_of filelist. suffix ''.bin'' (filename x)]
       = [x \<leftarrow> filelist. suffix ''.bin'' (filename x)]
   \<and> [x \<leftarrow> file_list_of filelist. \<not> suffix ''.bin'' (filename x)]
       = [x \<leftarrow> filelist. \<not> suffix ''.bin'' (filename x)]"
proof (intro conjI allI impI)
  fix i j
  assume h: "i < j \<and> j < length (file_list_of filelist)
           \<and> suffix ''.bin'' (filename (file_list_of filelist ! j))"
  let ?P = "\<lambda>x. suffix ''.bin'' (filename x)"
  have "?P ((filter ?P filelist @ filter (\<lambda>x. \<not> ?P x) filelist) ! i)"
    by (rule partition_order [where j = j]) (use h in \<open>simp_all add: file_list_of_def endswith_suffix\<close>)
  then show "suffix ''.bin'' (filename (file_list_of filelist ! i))"
    by (simp add: file_list_of_def endswith_suffix)
next
  show "[x \<leftarrow> file_list_of filelist. suffix ''.bin'' (filename x)]
       = [x \<leftarrow> filelist. suffix ''.bin'' (filename x)]"
    by (simp add: file_list_of_def endswith_suffix)
  show "[x \<leftarrow> file_list_of filelist. \<not> suffix ''.bin'' (filename x)]
       = [x \<leftarrow> filelist. \<not> suffix ''.bin'' (filename x)]"
    by (simp add: file_list_of_def endswith_suffix)
qed

lemma suffix_bin_examples:
  "suffix ''.bin'' ''b.bin''" "suffix ''.bin'' ''c.bin''"
  "\<not> suffix ''.bin'' ''a.txt''" "\<not> suffix ''.bin'' ''/''"
  by (simp_all add: suffix_to_prefix)

theorem file_list_stable_partition_witness:
  "(0::nat) < 1 \<and> 1 < length (file_list_of [file_of ''a.txt'' 10, file_of ''b.bin'' 2, file_of ''/'' 0, file_of ''c.bin'' 3])
   \<and> suffix ''.bin'' (filename (file_list_of [file_of ''a.txt'' 10, file_of ''b.bin'' 2, file_of ''/'' 0, file_of ''c.bin'' 3] ! 1))
   \<and> suffix ''.bin'' (filename (file_list_of [file_of ''a.txt'' 10, file_of ''b.bin'' 2, file_of ''/'' 0, file_of ''c.bin'' 3] ! 0))
   \<and> [x \<leftarrow> file_list_of [file_of ''a.txt'' 10, file_of ''b.bin'' 2, file_of ''/'' 0, file_of ''c.bin'' 3]. suffix ''.bin'' (filename x)]
       = [file_of ''b.bin'' 2, file_of ''c.bin'' 3]
   \<and> [x \<leftarrow> file_list_of [file_of ''a.txt'' 10, file_of ''b.bin'' 2, file_of ''/'' 0, file_of ''c.bin'' 3]. \<not> suffix ''.bin'' (filename x)]
       = [file_of ''a.txt'' 10, file_of ''/'' 0]"
proof -
  let ?fl = "[file_of ''a.txt'' 10, file_of ''b.bin'' 2, file_of ''/'' 0, file_of ''c.bin'' 3]"
  have fl: "file_list_of ?fl = [file_of ''b.bin'' 2, file_of ''c.bin'' 3, file_of ''a.txt'' 10, file_of ''/'' 0]"
    by (simp add: file_list_of_def file_of_def endswith_def)
  have h: "(0::nat) < 1 \<and> 1 < length (file_list_of ?fl)
     \<and> suffix ''.bin'' (filename (file_list_of ?fl ! 1))"
    by (simp add: fl file_of_sel suffix_bin_examples)
  from file_list_stable_partition [of ?fl] h
  have "suffix ''.bin'' (filename (file_list_of ?fl ! 0))"
    and "[x \<leftarrow> file_list_of ?fl. suffix ''.bin'' (filename x)] = [x \<leftarrow> ?fl. suffix ''.bin'' (filename x)]"
    and "[x \<leftarrow> file_list_of ?fl. \<not> suffix ''.bin'' (filename x)] = [x \<leftarrow> ?fl. \<not> suffix ''.bin'' (filename x)]"
    by blast+
  with h show ?thesis
    by (simp add: file_of_sel suffix_bin_examples)
qed

subsection \<open>The transient files\<close>

lemma upload_loop_failure_file:
  "upload_loop e d es a s = (Inl (CalledProcessError args), s') \<Longrightarrow>
   \<exists>x\<in>set es. temp_path_of (filename x) = Inr (last args) \<and> files s' (last args) = Some (content x)"
proof (induction es arbitrary: a s)
  case Nil
  then show ?case by simp
next
  case (Cons x es)
  show ?case
  proof (cases rule: upload_loop_Cons_cases [of x e d a s])
    case skip
    then show ?thesis using Cons by simp
  next
    case no_dot
    then show ?thesis using Cons.prems by simp
  next
    case (fail tp)
    then show ?thesis using Cons.prems by auto
  next
    case (ok tp)
    then show ?thesis using Cons by simp
  qed
qed

lemma upload_loop_keeps_absent:
  "upload_loop e d es a s = (Inr a', s') \<Longrightarrow> files s p = None \<Longrightarrow> files s' p = None"
proof (induction es arbitrary: a s)
  case Nil
  then show ?case by simp
next
  case (Cons x es)
  show ?case
  proof (cases rule: upload_loop_Cons_cases [of x e d a s])
    case skip
    then show ?thesis using Cons by simp
  next
    case no_dot
    then show ?thesis using Cons.prems by simp
  next
    case (fail tp)
    then show ?thesis using Cons.prems by simp
  next
    case (ok tp)
    then have run: "upload_loop e d es (next_address a (int (length (content x))))
        (s\<lparr>trace := trace s @ [Ran (write_flash_cmd e d a tp)], files := (files s)(tp := None)\<rparr>) = (Inr a', s')"
      using Cons.prems by simp
    show ?thesis
      by (rule Cons.IH [OF run]) (simp add: Cons.prems(2))
  qed
qed

lemma upload_loop_removed:
  "upload_loop e d es a s = (Inr a', s') \<Longrightarrow>
   \<forall>x\<in>set es. filename x \<noteq> ''/'' \<longrightarrow> (\<exists>tp. temp_path_of (filename x) = Inr tp \<and> files s' tp = None)"
proof (induction es arbitrary: a s)
  case Nil
  then show ?case by simp
next
  case (Cons x es)
  show ?case
  proof (cases rule: upload_loop_Cons_cases [of x e d a s])
    case skip
    then show ?thesis using Cons by simp
  next
    case no_dot
    then show ?thesis using Cons.prems by simp
  next
    case (fail tp)
    then show ?thesis using Cons.prems by simp
  next
    case (ok tp)
    then have run: "upload_loop e d es (next_address a (int (length (content x))))
        (s\<lparr>trace := trace s @ [Ran (write_flash_cmd e d a tp)], files := (files s)(tp := None)\<rparr>) = (Inr a', s')"
      using Cons.prems by simp
    have "files s' tp = None"
      by (rule upload_loop_keeps_absent [OF run]) simp
    with ok(2) Cons.IH [OF run] show ?thesis by simp
  qed
qed

subsection \<open>The whole upload in terms of its loop\<close>

lemma get_device_loop_errors:
  "get_device_loop e ports s = (Inl err, s') \<Longrightarrow> err = TypeError \<or> err = UnicodeDecodeError"
proof (induction ports arbitrary: s)
  case Nil
  then show ?case by simp
next
  case (Cons p ports)
  obtain x s1 where st: "check_status e \<lparr>port = p\<rparr> s = (x, s1)"
    by (cases "check_status e \<lparr>port = p\<rparr> s")
  show ?case
  proof (cases x)
    case (Inl err0)
    with st Cons.prems check_status_errors [of e "\<lparr>port = p\<rparr>" s err0 s1] show ?thesis
      by simp
  next
    case (Inr status)
    with st Cons.prems Cons.IH [of s1] show ?thesis
      by (simp split: if_splits)
  qed
qed

lemma clear_flash_run:
  "clear_flash e d s =
     (if returncode (esptool e [''esptool'', ''--port'', port d, ''--baud'', str_py (BAUD_RATE e), ''erase_flash'']) \<noteq> 0
      then Inl (CalledProcessError [''esptool'', ''--port'', port d, ''--baud'', str_py (BAUD_RATE e), ''erase_flash''])
      else Inr (),
      s\<lparr>trace := trace s @ [Ran [''esptool'', ''--port'', port d, ''--baud'', str_py (BAUD_RATE e), ''erase_flash'']]\<rparr>)"
  by (simp add: clear_flash_def subprocess_run_def Let_def)

lemma session_failure:
  assumes "upload_zip_folder e s = (Inl (CalledProcessError args), s')"
    and "last args \<noteq> ''erase_flash''"
  shows "\<exists>filelist device s0. zip_filelist e (askopenfilename e) = Some filelist
           \<and> upload_loop e device (file_list_of filelist) 0 s0 = (Inl (CalledProcessError args), s')"
proof -
  let ?s2 = "s\<lparr>trace := trace s @ [Dialog_opened],
      status_text := ''Uploading files... (this may take a while)''\<rparr>"
  obtain x s3 where gd: "get_device e ?s2 = (x, s3)"
    by (cases "get_device e ?s2")
  show ?thesis
  proof (cases x)
    case (Inl err)
    with gd have "err = TypeError \<or> err = UnicodeDecodeError"
      using get_device_loop_errors [of e "comports e" ?s2 err s3] by (simp add: get_device_def)
    with assms(1) gd Inl show ?thesis
      by (auto simp: upload_zip_folder_def Let_def split: if_splits)
  next
    case (Inr r)
    with assms gd show ?thesis
      by (auto simp: upload_zip_folder_def Let_def clear_flash_run
          split: if_splits prod.splits sum.splits option.splits)
  qed
qed

lemma session_success:
  assumes "upload_zip_folder e s = (Inr True, s')"
  shows "\<exists>filelist device s0 a' s1. zip_filelist e (askopenfilename e) = Some filelist
           \<and> upload_loop e device (file_list_of filelist) 0 s0 = (Inr a', s1)
           \<and> files s' = files s1"
proof -
  let ?s2 = "s\<lparr>trace := trace s @ [Dialog_opened],
      status_text := ''Uploading files... (this may take a while)''\<rparr>"
  obtain x s3 where gd: "get_device e ?s2 = (x, s3)"
    by (cases "get_device e ?s2")
  show ?thesis
  proof (cases x)
    case (Inl err)
    with assms gd show ?thesis
      by (auto simp: upload_zip_folder_def Let_def split: if_splits)
  next
    case (Inr r)
    with assms gd show ?thesis
      by (auto simp: upload_zip_folder_def Let_def clear_flash_run
          split: if_splits prod.splits sum.splits option.splits) fastforce
  qed
qed

lemma set_file_list_of: "set (file_list_of filelist) = set filelist"
  by (auto simp: file_list_of_def)

lemma session_reaches_loop:
  assumes "current_status s = Some DEVICE_FOUND"
    and "comports e = p # ports"
    and "fst (check_status e \<lparr>port = p\<rparr> s) = Inr DEVICE_FOUND"
    and "returncode (esptool e [''esptool'', ''--port'', p, ''--baud'', str_py (BAUD_RATE e), ''erase_flash'']) = 0"
    and "zip_filelist e (askopenfilename e) = Some filelist"
  shows "upload_zip_folder e s =
     (case upload_loop e \<lparr>port = p\<rparr> (file_list_of filelist) 0
             (s\<lparr>status_text := ''Uploading files... (this may take a while)'',
                trace := trace s @ [Dialog_opened, Ran (flash_id_cmd e p),
                  Ran [''esptool'', ''--port'', p, ''--baud'', str_py (BAUD_RATE e), ''erase_flash''],
                  Zip_opened (askopenfilename e)]\<rparr>) of
        (Inl err, s6) \<Rightarrow> (Inl err, s6)
      | (Inr a, s6) \<Rightarrow> (Inr True, s6\<lparr>status_text := ''Files uploaded successfully!''\<rparr>))"
proof -
  let ?s2 = "s\<lparr>trace := trace s @ [Dialog_opened],
      status_text := ''Uploading files... (this may take a while)''\<rparr>"
  have gd: "get_device e ?s2 =
      (Inr (Some \<lparr>port = p\<rparr>, DEVICE_FOUND), ?s2\<lparr>trace := trace ?s2 @ [Ran (flash_id_cmd e p)]\<rparr>)"
    using get_device_loop_decides [OF assms(3), of ports ?s2]
    by (simp add: get_device_def assms(2) del: get_device_loop.simps)
  show ?thesis
    by (simp add: upload_zip_folder_def Let_def gd clear_flash_run assms(1,4,5))
qed

text \<open>
  Claim C3, amended. When a write fails (the tool exits with a nonzero code), the failure is
  surfaced at once and the transient file of that entry is still there, with the entry's bytes,
  when the caller sees the failure: the program has no \<^verbatim>\<open>try\<close>, and \<^verbatim>\<open>os.remove\<close> stands after the
  upload. The transient file of an entry is removed only after its write has succeeded: after
  an upload that ends well none of them is left. (A \<^verbatim>\<open>CalledProcessError\<close> can also come from
  \<^verbatim>\<open>clear_flash\<close>; its command ends with \<^verbatim>\<open>erase_flash\<close>.)
\<close>

theorem failed_write_leaves_file:
  "(upload_zip_folder e s = (Inl (CalledProcessError args), s') \<and> last args \<noteq> ''erase_flash''
      \<longrightarrow> (\<exists>filelist. zip_filelist e (askopenfilename e) = Some filelist
            \<and> (\<exists>x\<in>set filelist. temp_path_of (filename x) = Inr (last args)
                  \<and> files s' (last args) = Some (content x))))
   \<and> (upload_zip_folder e s = (Inr True, s')
      \<longrightarrow> (\<exists>filelist. zip_filelist e (askopenfilename e) = Some filelist
            \<and> (\<forall>x\<in>set filelist. filename x \<noteq> ''/''
                  \<longrightarrow> (\<exists>tp. temp_path_of (filename x) = Inr tp \<and> files s' tp = None))))"
proof (intro conjI impI)
  assume "upload_zip_folder e s = (Inl (CalledProcessError args), s') \<and> last args \<noteq> ''erase_flash''"
  then obtain filelist device s0 where zip: "zip_filelist e (askopenfilename e) = Some filelist"
    and run: "upload_loop e device (file_list_of filelist) 0 s0 = (Inl (CalledProcessError args), s')"
    using session_failure by blast
  from upload_loop_failure_file [OF run] zip
  show "\<exists>filelist. zip_filelist e (askopenfilename e) = Some filelist
            \<and> (\<exists>x\<in>set filelist. temp_path_of (filename x) = Inr (last args)
                  \<and> files s' (last args) = Some (content x))"
    by (simp add: set_file_list_of)
next
  assume "upload_zip_folder e s = (Inr True, s')"
  then obtain filelist device s0 a' s1 where zip: "zip_filelist e (askopenfilename e) = Some filelist"
    and run: "upload_loop e device (file_list_of filelist) 0 s0 = (Inr a', s1)"
    and same: "files s' = files s1"
    using session_success by blast
  from upload_loop_removed [OF run] zip same
  show "\<exists>filelist. zip_filelist e (askopenfilename e) = Some filelist
            \<and> (\<forall>x\<in>set filelist. filename x \<noteq> ''/''
                  \<longrightarrow> (\<exists>tp. temp_path_of (filename x) = Inr tp \<and> files s' tp = None))"
    by (simp add: set_file_list_of)
qed

lemma bench_session:
  assumes "stdout (tool [''esptool'', ''--port'', ''COM3'', ''--baud'', ''115200'', ''flash_id'']) = []"
    and "returncode (tool [''esptool'', ''--port'', ''COM3'', ''--baud'', ''115200'', ''erase_flash'']) = 0"
  shows "upload_zip_folder (with_archive (bench tool [''COM3'']) filelist) ready =
     (case upload_loop (with_archive (bench tool [''COM3'']) filelist) \<lparr>port = ''COM3''\<rparr> (file_list_of filelist) 0
             (ready\<lparr>status_text := ''Uploading files... (this may take a while)'',
                trace := [Dialog_opened,
                  Ran [''esptool'', ''--port'', ''COM3'', ''--baud'', ''115200'', ''flash_id''],
                  Ran [''esptool'', ''--port'', ''COM3'', ''--baud'', ''115200'', ''erase_flash''],
                  Zip_opened ''bundle.zip'']\<rparr>) of
        (Inl err, s6) \<Rightarrow> (Inl err, s6)
      | (Inr a, s6) \<Rightarrow> (Inr True, s6\<lparr>status_text := ''Files uploaded successfully!''\<rparr>))"
proof -
  have "upload_zip_folder (with_archive (bench tool [''COM3'']) filelist) ready =
     (case upload_loop (with_archive (bench tool [''COM3'']) filelist) \<lparr>port = ''COM3''\<rparr> (file_list_of filelist) 0
             (ready\<lparr>status_text := ''Uploading files... (this may take a while)'',
                trace := trace ready @ [Dialog_opened,
                  Ran (flash_id_cmd (with_archive (bench tool [''COM3'']) filelist) ''COM3''),
                  Ran [''esptool'', ''--port'', ''COM3'', ''--baud'', str_py (BAUD_RATE (with_archive (bench tool [''COM3'']) filelist)), ''erase_flash''],
                  Zip_opened (askopenfilename (with_archive (bench tool [''COM3'']) filelist))]\<rparr>) of
        (Inl err, s6) \<Rightarrow> (Inl err, s6)
      | (Inr a, s6) \<Rightarrow> (Inr True, s6\<lparr>status_text := ''Files uploaded successfully!''\<rparr>))"
    by (rule session_reaches_loop [where ports = "[]"])
       (simp_all add: assms ready_def start_def with_archive_def bench_def
          check_status_fst [where baud = "''115200''"] ascii_texts BOOT_MODE_ERROR_TEXT_def
          NO_DEVICE_FOUND_TEXT_def)
  then show ?thesis
    by (simp add: ready_def start_def with_archive_def bench_def)
qed

text \<open>Two uploads, run.\<close>

lemma bench_fields:
  "esptool (with_archive (bench tool ports) filelist) = tool"
  "str_py (BAUD_RATE (with_archive (bench tool ports) filelist)) = ''115200''"
  "zip_filelist (with_archive (bench tool ports) filelist) ''bundle.zip'' = Some filelist"
  "askopenfilename (with_archive (bench tool ports) filelist) = ''bundle.zip''"
  "esptool (bench tool ports) = tool"
  "str_py (BAUD_RATE (bench tool ports)) = ''115200''"
  by (simp_all add: with_archive_def bench_def)

lemma failing_session:
  "upload_zip_folder (with_archive (bench tool_write_fails [''COM3'']) [file_of ''b.bin'' 3]) ready =
     (Inl (CalledProcessError [''esptool'', ''--port'', ''COM3'', ''--baud'', ''115200'', ''write_flash'',
                               ''--flash_size=detect'', ''0x0'', ''temp.bin'']),
      ready\<lparr>status_text := ''Uploading files... (this may take a while)'',
            files := [''temp.bin'' \<mapsto> replicate 3 0],
            trace := [Dialog_opened,
              Ran [''esptool'', ''--port'', ''COM3'', ''--baud'', ''115200'', ''flash_id''],
              Ran [''esptool'', ''--port'', ''COM3'', ''--baud'', ''115200'', ''erase_flash''],
              Zip_opened ''bundle.zip'',
              Ran [''esptool'', ''--port'', ''COM3'', ''--baud'', ''115200'', ''write_flash'',
                   ''--flash_size=detect'', ''0x0'', ''temp.bin'']]\<rparr>)"
proof -
  have tool: "stdout (tool_write_fails [''esptool'', ''--port'', ''COM3'', ''--baud'', ''115200'', ''flash_id'']) = []"
    "returncode (tool_write_fails [''esptool'', ''--port'', ''COM3'', ''--baud'', ''115200'', ''erase_flash'']) = 0"
    by (simp_all add: tool_write_fails_def)
  show ?thesis
    unfolding bench_session [of tool_write_fails, OF tool] file_list_examples
    by (subst upload_loop_fail [where tp = "''temp.bin''"])
       (simp_all add: file_of_sel temp_path_examples bench_fields tool_write_fails_def hex_0
          ready_def start_def)
qed

lemma succeeding_session:
  "upload_zip_folder (with_archive (bench tool_ok [''COM3'']) [file_of ''b.bin'' 3]) ready =
     (Inr True,
      ready\<lparr>status_text := ''Files uploaded successfully!'',
            trace := [Dialog_opened,
              Ran [''esptool'', ''--port'', ''COM3'', ''--baud'', ''115200'', ''flash_id''],
              Ran [''esptool'', ''--port'', ''COM3'', ''--baud'', ''115200'', ''erase_flash''],
              Zip_opened ''bundle.zip'',
              Ran [''esptool'', ''--port'', ''COM3'', ''--baud'', ''115200'', ''write_flash'',
                   ''--flash_size=detect'', ''0x0'', ''temp.bin'']]\<rparr>)"
proof -
  have tool: "stdout (tool_ok [''esptool'', ''--port'', ''COM3'', ''--baud'', ''115200'', ''flash_id'']) = []"
    "returncode (tool_ok [''esptool'', ''--port'', ''COM3'', ''--baud'', ''115200'', ''erase_flash'']) = 0"
    by (simp_all add: tool_ok_def)
  show ?thesis
    unfolding bench_session [of tool_ok, OF tool] file_list_examples
    by (subst upload_loop_ok [where tp = "''temp.bin''"])
       (simp_all add: file_of_sel temp_path_examples bench_fields tool_ok_def hex_0
          ready_def start_def)
qed

text \<open>
  Claim C3, as stated: the transient file of an entry whose write fails is removed before the
  failure is surfaced. It is not: with a tool whose \<^verbatim>\<open>write_flash\<close> exits with code 2, the upload of
  an archive holding \<^verbatim>\<open>b.bin\<close> ends in \<^verbatim>\<open>CalledProcessError\<close> and \<^verbatim>\<open>temp.bin\<close> is still there.
\<close>

theorem failed_write_counterexample:
  "fst (upload_zip_folder (with_archive (bench tool_write_fails [''COM3'']) [file_of ''b.bin'' 3]) ready)
     = Inl (CalledProcessError [''esptool'', ''--port'', ''COM3'', ''--baud'', ''115200'', ''write_flash'',
                                ''--flash_size=detect'', ''0x0'', ''temp.bin''])
   \<and> files (snd (upload_zip_folder (with_archive (bench tool_write_fails [''COM3'']) [file_of ''b.bin'' 3]) ready))
         ''temp.bin'' = Some (replicate 3 0)"
  by (simp add: failing_session)

theorem failed_write_leaves_file_witness:
  "fst (upload_zip_folder (with_archive (bench tool_write_fails [''COM3'']) [file_of ''b.bin'' 3]) ready)
     = Inl (CalledProcessError [''esptool'', ''--port'', ''COM3'', ''--baud'', ''115200'', ''write_flash'',
                                ''--flash_size=detect'', ''0x0'', ''temp.bin''])
   \<and> last [''esptool'', ''--port'', ''COM3'', ''--baud'', ''115200'', ''write_flash'',
            ''--flash_size=detect'', ''0x0'', ''temp.bin''] \<noteq> ''erase_flash''
   \<and> files (snd (upload_zip_folder (with_archive (bench tool_write_fails [''COM3'']) [file_of ''b.bin'' 3]) ready))
         ''temp.bin'' = Some (content (file_of ''b.bin'' 3))
   \<and> fst (upload_zip_folder (with_archive (bench tool_ok [''COM3'']) [file_of ''b.bin'' 3]) ready) = Inr True
   \<and> filename (file_of ''b.bin'' 3) \<noteq> ''/''
   \<and> temp_path_of (filename (file_of ''b.bin'' 3)) = Inr ''temp.bin''
   \<and> files (snd (upload_zip_folder (with_archive (bench tool_ok [''COM3'']) [file_of ''b.bin'' 3]) ready))
         ''temp.bin'' = None"
proof -
  let ?W = "[''esptool'', ''--port'', ''COM3'', ''--baud'', ''115200'', ''write_flash'',
             ''--flash_size=detect'', ''0x0'', ''temp.bin'']"
  let ?e1 = "with_archive (bench tool_write_fails [''COM3'']) [file_of ''b.bin'' 3]"
  let ?e2 = "with_archive (bench tool_ok [''COM3'']) [file_of ''b.bin'' 3]"
  have f: "upload_zip_folder ?e1 ready = (Inl (CalledProcessError ?W), snd (upload_zip_folder ?e1 ready))
      \<and> last ?W \<noteq> ''erase_flash''"
    by (simp add: failing_session)
  have g: "upload_zip_folder ?e2 ready = (Inr True, snd (upload_zip_folder ?e2 ready))"
    by (simp add: succeeding_session)
  from failed_write_leaves_file [of ?e1 ready ?W "snd (upload_zip_folder ?e1 ready)"] f
  have a: "files (snd (upload_zip_folder ?e1 ready)) ''temp.bin'' = Some (content (file_of ''b.bin'' 3))"
    by (auto simp: bench_fields)
  from failed_write_leaves_file [of ?e2 ready _ "snd (upload_zip_folder ?e2 ready)"] g
  have b: "files (snd (upload_zip_folder ?e2 ready)) ''temp.bin'' = None"
    by (auto simp: bench_fields file_of_sel temp_path_examples)
  have f': "fst (upload_zip_folder ?e1 ready) = Inl (CalledProcessError ?W)"
    by (simp add: failing_session)
  have g': "fst (upload_zip_folder ?e2 ready) = Inr True"
    by (simp add: succeeding_session)
  from a b f' g' show ?thesis
    by (simp add: file_of_sel temp_path_examples)
qed

subsection \<open>The addresses\<close>

lemma plan_example_run:
  assumes "length ca = 10" and "length cb = 5000"
    and "returncode (esptool e [''esptool'', ''--port'', port device, ''--baud'', str_py (BAUD_RATE e),
           ''write_flash'', ''--flash_size=detect'', ''0x0'', ''temp.bin'']) = 0"
    and "returncode (esptool e [''esptool'', ''--port'', port device, ''--baud'', str_py (BAUD_RATE e),
           ''write_flash'', ''--flash_size=detect'', ''0x2000'', ''temp.txt'']) = 0"
  shows "upload_loop e device
           (file_list_of [\<lparr>filename = ''a.txt'', content = ca\<rparr>, \<lparr>filename = ''b.bin'', content = cb\<rparr>,
                          \<lparr>filename = ''/'', content = cs\<rparr>]) 0x0 s
     = (Inr 0x3000,
        s\<lparr>trace := trace s @
              [Ran [''esptool'', ''--port'', port device, ''--baud'', str_py (BAUD_RATE e),
                    ''write_flash'', ''--flash_size=detect'', ''0x0'', ''temp.bin''],
               Ran [''esptool'', ''--port'', port device, ''--baud'', str_py (BAUD_RATE e),
                    ''write_flash'', ''--flash_size=detect'', ''0x2000'', ''temp.txt'']],
          files := (files s)(''temp.bin'' := None, ''temp.txt'' := None)\<rparr>)"
proof -
  let ?a = "\<lparr>filename = ''a.txt'', content = ca\<rparr>"
  let ?b = "\<lparr>filename = ''b.bin'', content = cb\<rparr>"
  let ?sl = "\<lparr>filename = ''/'', content = cs\<rparr>"
  let ?s1 = "s\<lparr>trace := trace s @ [Ran (write_flash_cmd e device 0 ''temp.bin'')],
               files := (files s)(''temp.bin'' := None)\<rparr>"
  let ?s2 = "?s1\<lparr>trace := trace ?s1 @ [Ran (write_flash_cmd e device 0x2000 ''temp.txt'')],
               files := (files ?s1)(''temp.txt'' := None)\<rparr>"
  have "upload_loop e device (file_list_of [?a, ?b, ?sl]) 0 s = upload_loop e device [?b, ?a, ?sl] 0 s"
    by (simp add: file_list_of_def endswith_def)
  also have "\<dots> = upload_loop e device [?a, ?sl] 0x2000 ?s1"
    by (subst upload_loop_ok [where tp = "''temp.bin''"])
       (simp_all add: temp_path_examples hex_0 assms next_address_def CHUNK_SIZE_def)
  also have "\<dots> = upload_loop e device [?sl] 0x3000 ?s2"
    by (subst upload_loop_ok [where tp = "''temp.txt''"])
       (simp_all add: temp_path_examples hex_0x2000 assms next_address_def CHUNK_SIZE_def)
  also have "\<dots> = (Inr 0x3000, ?s2)"
    by (simp add: upload_loop_skip)
  finally show ?thesis
    by (simp add: hex_0 hex_0x2000)
qed

text \<open>
  Claim C1, amended. For the archive \<^verbatim>\<open>a.txt\<close> (10 bytes), \<^verbatim>\<open>b.bin\<close> (5000 bytes), \<^verbatim>\<open>/\<close> and a tool that
  accepts the two writes, the upload writes \<^verbatim>\<open>b.bin\<close> first, at address \<^verbatim>\<open>0x0\<close>, then \<^verbatim>\<open>a.txt\<close> at
  address \<^verbatim>\<open>0x2000\<close> (the end offset 5000 lies in the second chunk, so the next free chunk starts
  at 8192), and nothing for \<^verbatim>\<open>/\<close>. Both transient files are gone afterwards and the running
  address ends at \<^verbatim>\<open>0x3000\<close>.
\<close>

theorem plan_example:
  "length ca = 10 \<and> length cb = 5000
   \<and> returncode (esptool e [''esptool'', ''--port'', port device, ''--baud'', str_py (BAUD_RATE e),
           ''write_flash'', ''--flash_size=detect'', ''0x0'', ''temp.bin'']) = 0
   \<and> returncode (esptool e [''esptool'', ''--port'', port device, ''--baud'', str_py (BAUD_RATE e),
           ''write_flash'', ''--flash_size=detect'', ''0x2000'', ''temp.txt'']) = 0
   \<Longrightarrow>
   upload_loop e device
           (file_list_of [\<lparr>filename = ''a.txt'', content = ca\<rparr>, \<lparr>filename = ''b.bin'', content = cb\<rparr>,
                          \<lparr>filename = ''/'', content = cs\<rparr>]) 0x0 s
     = (Inr 0x3000,
        s\<lparr>trace := trace s @
              [Ran [''esptool'', ''--port'', port device, ''--baud'', str_py (BAUD_RATE e),
                    ''write_flash'', ''--flash_size=detect'', ''0x0'', ''temp.bin''],
               Ran [''esptool'', ''--port'', port device, ''--baud'', str_py (BAUD_RATE e),
                    ''write_flash'', ''--flash_size=detect'', ''0x2000'', ''temp.txt'']],
          files := (files s)(''temp.bin'' := None, ''temp.txt'' := None)\<rparr>)"
  by (rule plan_example_run) simp_all

lemma plan_example_bench:
  "upload_loop (bench tool_ok [''COM3'']) \<lparr>port = ''COM3''\<rparr>
       (file_list_of [file_of ''a.txt'' 10, file_of ''b.bin'' 5000, file_of ''/'' 0]) 0x0 start
     = (Inr 0x3000,
        start\<lparr>trace :=
              [Ran [''esptool'', ''--port'', ''COM3'', ''--baud'', ''115200'',
                    ''write_flash'', ''--flash_size=detect'', ''0x0'', ''temp.bin''],
               Ran [''esptool'', ''--port'', ''COM3'', ''--baud'', ''115200'',
                    ''write_flash'', ''--flash_size=detect'', ''0x2000'', ''temp.txt'']]\<rparr>)"
  unfolding file_of_def
  by (subst plan_example_run) (simp_all add: tool_ok_def bench_fields start_def)

text \<open>
  Claim C1, as stated: \<^verbatim>\<open>a.txt\<close> is assigned the address \<^verbatim>\<open>0x1000\<close>. It is not: the commands run are
  the write of \<^verbatim>\<open>temp.bin\<close> at \<^verbatim>\<open>0x0\<close> and the write of \<^verbatim>\<open>temp.txt\<close> at \<^verbatim>\<open>0x2000\<close>; no write at
  \<^verbatim>\<open>0x1000\<close> takes place (it would fall inside the 5000 bytes of \<^verbatim>\<open>b.bin\<close>).
\<close>

theorem plan_example_counterexample:
  "trace (snd (upload_loop (bench tool_ok [''COM3'']) \<lparr>port = ''COM3''\<rparr>
       (file_list_of [file_of ''a.txt'' 10, file_of ''b.bin'' 5000, file_of ''/'' 0]) 0x0 start))
     = [Ran [''esptool'', ''--port'', ''COM3'', ''--baud'', ''115200'',
             ''write_flash'', ''--flash_size=detect'', ''0x0'', ''temp.bin''],
        Ran [''esptool'', ''--port'', ''COM3'', ''--baud'', ''115200'',
             ''write_flash'', ''--flash_size=detect'', ''0x2000'', ''temp.txt'']]
   \<and> Ran [''esptool'', ''--port'', ''COM3'', ''--baud'', ''115200'',
           ''write_flash'', ''--flash_size=detect'', ''0x1000'', ''temp.txt'']
       \<notin> set (trace (snd (upload_loop (bench tool_ok [''COM3'']) \<lparr>port = ''COM3''\<rparr>
       (file_list_of [file_of ''a.txt'' 10, file_of ''b.bin'' 5000, file_of ''/'' 0]) 0x0 start)))"
  by (simp add: plan_example_bench)

theorem plan_example_witness:
  "length (replicate 10 (0 :: 8 word)) = 10 \<and> length (replicate 5000 (0 :: 8 word)) = 5000
   \<and> returncode (esptool (bench tool_ok [''COM3'']) [''esptool'', ''--port'', port \<lparr>port = ''COM3''\<rparr>, ''--baud'',
           str_py (BAUD_RATE (bench tool_ok [''COM3''])), ''write_flash'', ''--flash_size=detect'', ''0x0'', ''temp.bin'']) = 0
   \<and> returncode (esptool (bench tool_ok [''COM3'']) [''esptool'', ''--port'', port \<lparr>port = ''COM3''\<rparr>, ''--baud'',
           str_py (BAUD_RATE (bench tool_ok [''COM3''])), ''write_flash'', ''--flash_size=detect'', ''0x2000'', ''temp.txt'']) = 0
   \<and> upload_loop (bench tool_ok [''COM3'']) \<lparr>port = ''COM3''\<rparr>
           (file_list_of [\<lparr>filename = ''a.txt'', content = replicate 10 0\<rparr>,
                          \<lparr>filename = ''b.bin'', content = replicate 5000 0\<rparr>,
                          \<lparr>filename = ''/'', content = []\<rparr>]) 0x0 start
     = (Inr 0x3000,
        start\<lparr>trace :=
              [Ran [''esptool'', ''--port'', ''COM3'', ''--baud'', ''115200'',
                    ''write_flash'', ''--flash_size=detect'', ''0x0'', ''temp.bin''],
               Ran [''esptool'', ''--port'', ''COM3'', ''--baud'', ''115200'',
                    ''write_flash'', ''--flash_size=detect'', ''0x2000'', ''temp.txt'']]\<rparr>)"
proof -
  have h: "length (replicate 10 (0 :: 8 word)) = 10 \<and> length (replicate 5000 (0 :: 8 word)) = 5000
   \<and> returncode (esptool (bench tool_ok [''COM3'']) [''esptool'', ''--port'', port \<lparr>port = ''COM3''\<rparr>, ''--baud'',
           str_py (BAUD_RATE (bench tool_ok [''COM3''])), ''write_flash'', ''--flash_size=detect'', ''0x0'', ''temp.bin'']) = 0
   \<and> returncode (esptool (bench tool_ok [''COM3'']) [''esptool'', ''--port'', port \<lparr>port = ''COM3''\<rparr>, ''--baud'',
           str_py (BAUD_RATE (bench tool_ok [''COM3''])), ''write_flash'', ''--flash_size=detect'', ''0x2000'', ''temp.txt'']) = 0"
    by (simp add: tool_ok_run)
  from plan_example [OF h, of "[]" start] h show ?thesis
    by (simp add: bench_fields start_def)
qed

text \<open>The running address.\<close>

lemma address_run_length: "length (address_run a sizes) = length sizes"
  by (induction sizes arbitrary: a) simp_all

lemma address_run_first: "sizes \<noteq> [] \<Longrightarrow> address_run a sizes ! 0 = a"
  by (cases sizes) simp_all

lemma address_run_next:
  "Suc i < length sizes \<Longrightarrow>
   address_run a sizes ! Suc i = next_address (address_run a sizes ! i) (sizes ! i)"
proof (induction sizes arbitrary: a i)
  case Nil
  then show ?case by simp
next
  case (Cons sz sizes)
  show ?case
  proof (cases i)
    case 0
    with Cons.prems show ?thesis by (cases sizes) simp_all
  next
    case (Suc k)
    with Cons.prems have "Suc k < length sizes" by simp
    from Cons.IH [OF this] Suc show ?thesis by simp
  qed
qed

lemma next_address_bounds:
  "next_address a sz mod CHUNK_SIZE = 0"
  "a + sz < next_address a sz"
  "next_address a sz \<le> a + sz + CHUNK_SIZE"
  by (simp_all add: next_address_def CHUNK_SIZE_def)

lemma next_address_exact:
  assumes "(a + sz) mod CHUNK_SIZE = 0"
  shows "next_address a sz = a + sz + CHUNK_SIZE"
proof -
  have "(a + sz) div CHUNK_SIZE * CHUNK_SIZE = a + sz"
    using assms div_mult_mod_eq [of "a + sz" CHUNK_SIZE] by simp
  then show ?thesis
    by (simp add: next_address_def algebra_simps)
qed

text \<open>
  What the loop runs: one write for each entry it gets to, at the running address, up to the
  first one that fails (which is run as well) or has no transient path.
\<close>

lemma loop_trace_no_sep:
  assumes "\<forall>x\<in>set es. filename x \<noteq> ''/''"
  shows "\<exists>paths. length paths \<le> length es
      \<and> (\<forall>i<length paths. temp_path_of (filename (es ! i)) = Inr (paths ! i))
      \<and> trace (snd (upload_loop e d es a s))
          = trace s @ map2 (\<lambda>a p. Ran (write_flash_cmd e d a p))
                        (take (length paths) (address_run a (map (\<lambda>x. int (length (content x))) es))) paths
      \<and> (\<forall>a'. fst (upload_loop e d es a s) = Inr a' \<longrightarrow> length paths = length es)"
  using assms
proof (induction es arbitrary: a s)
  case Nil
  show ?case by (rule exI [of _ "[]"]) simp
next
  case (Cons x es)
  show ?case
  proof (cases rule: upload_loop_Cons_cases [of x e d a s])
    case skip
    then show ?thesis using Cons.prems by simp
  next
    case no_dot
    show ?thesis by (rule exI [of _ "[]"]) (simp add: no_dot)
  next
    case (fail tp)
    show ?thesis by (rule exI [of _ "[tp]"]) (simp add: fail)
  next
    case (ok tp)
    let ?a1 = "next_address a (int (length (content x)))"
    let ?s1 = "s\<lparr>trace := trace s @ [Ran (write_flash_cmd e d a tp)], files := (files s)(tp := None)\<rparr>"
    from Cons.prems have "\<forall>x\<in>set es. filename x \<noteq> ''/''" by simp
    from Cons.IH [OF this, of ?a1 ?s1]
    obtain paths where len: "length paths \<le> length es"
      and tps: "\<forall>i<length paths. temp_path_of (filename (es ! i)) = Inr (paths ! i)"
      and tr: "trace (snd (upload_loop e d es ?a1 ?s1))
          = trace ?s1 @ map2 (\<lambda>a p. Ran (write_flash_cmd e d a p))
                        (take (length paths) (address_run ?a1 (map (\<lambda>x. int (length (content x))) es))) paths"
      and fin: "\<forall>a'. fst (upload_loop e d es ?a1 ?s1) = Inr a' \<longrightarrow> length paths = length es"
      by blast
    have run: "upload_loop e d (x # es) a s = upload_loop e d es ?a1 ?s1"
      using ok(4) by simp
    have tps': "\<forall>i<length (tp # paths). temp_path_of (filename ((x # es) ! i)) = Inr ((tp # paths) ! i)"
    proof (intro allI impI)
      fix i assume "i < length (tp # paths)"
      then show "temp_path_of (filename ((x # es) ! i)) = Inr ((tp # paths) ! i)"
        using tps ok(2) by (cases i) simp_all
    qed
    show ?thesis
      by (rule exI [of _ "tp # paths"]) (use len tps' fin in \<open>simp add: run tr\<close>)
  qed
qed

text \<open>
  Claim C2, amended. The writes of an upload are those of the entries other than \<^verbatim>\<open>/\<close>, in order
  (all of them when the upload ends well, otherwise up to the one that fails). The first is at
  address \<^verbatim>\<open>0x0\<close>, and each later one is at
  \<open>((previous address + previous length) div CHUNK_SIZE + 1) * CHUNK_SIZE\<close>: the first multiple of
  the chunk size that is strictly greater than the previous end offset (\<open>next_address_bounds\<close>).
  When the end offset is itself a multiple of the chunk size, the next address is that offset
  plus one chunk (\<open>next_address_exact\<close>), not the offset.
\<close>

theorem upload_addresses:
  "\<exists>addrs paths.
       length addrs = length paths
     \<and> length addrs \<le> length [x \<leftarrow> es. filename x \<noteq> ''/'']
     \<and> (\<forall>i<length addrs. temp_path_of (filename ([x \<leftarrow> es. filename x \<noteq> ''/''] ! i)) = Inr (paths ! i))
     \<and> trace (snd (upload_loop e device es 0x0 s))
         = trace s @ map2 (\<lambda>a p. Ran (write_flash_cmd e device a p)) addrs paths
     \<and> (\<forall>a'. fst (upload_loop e device es 0x0 s) = Inr a'
            \<longrightarrow> length addrs = length [x \<leftarrow> es. filename x \<noteq> ''/''])
     \<and> (addrs \<noteq> [] \<longrightarrow> addrs ! 0 = 0x0)
     \<and> (\<forall>i. Suc i < length addrs \<longrightarrow>
            addrs ! Suc i
              = ((addrs ! i + int (length (content ([x \<leftarrow> es. filename x \<noteq> ''/''] ! i)))) div CHUNK_SIZE + 1)
                  * CHUNK_SIZE)"
proof -
  let ?ups = "[x \<leftarrow> es. filename x \<noteq> ''/'']"
  let ?sizes = "map (\<lambda>x. int (length (content x))) ?ups"
  have same: "upload_loop e device es 0 s = upload_loop e device ?ups 0 s"
    by (rule upload_loop_filter)
  have "\<forall>x\<in>set ?ups. filename x \<noteq> ''/''" by simp
  from loop_trace_no_sep [OF this, of e device 0 s]
  obtain paths where len: "length paths \<le> length ?ups"
    and tps: "\<forall>i<length paths. temp_path_of (filename (?ups ! i)) = Inr (paths ! i)"
    and tr: "trace (snd (upload_loop e device ?ups 0 s))
        = trace s @ map2 (\<lambda>a p. Ran (write_flash_cmd e device a p))
                      (take (length paths) (address_run 0 ?sizes)) paths"
    and fin: "\<forall>a'. fst (upload_loop e device ?ups 0 s) = Inr a' \<longrightarrow> length paths = length ?ups"
    by blast
  let ?addrs = "take (length paths) (address_run 0 ?sizes)"
  have l: "length ?addrs = length paths"
    using len by (simp add: address_run_length)
  have first: "?addrs \<noteq> [] \<longrightarrow> ?addrs ! 0 = 0"
  proof
    assume "?addrs \<noteq> []"
    then have "?sizes \<noteq> []" and "0 < length paths" by auto
    then show "?addrs ! 0 = 0" by (simp add: address_run_first)
  qed
  have step: "\<forall>i. Suc i < length ?addrs \<longrightarrow>
      ?addrs ! Suc i = ((?addrs ! i + int (length (content (?ups ! i)))) div CHUNK_SIZE + 1) * CHUNK_SIZE"
  proof (intro allI impI)
    fix i assume "Suc i < length ?addrs"
    with l len have i: "Suc i < length paths" "Suc i < length ?sizes" by simp_all
    then have "?addrs ! Suc i = address_run 0 ?sizes ! Suc i" and "?addrs ! i = address_run 0 ?sizes ! i"
      by simp_all
    moreover have "address_run 0 ?sizes ! Suc i = next_address (address_run 0 ?sizes ! i) (?sizes ! i)"
      by (rule address_run_next [OF i(2)])
    moreover have "?sizes ! i = int (length (content (?ups ! i)))"
      using i(2) by simp
    ultimately show "?addrs ! Suc i
        = ((?addrs ! i + int (length (content (?ups ! i)))) div CHUNK_SIZE + 1) * CHUNK_SIZE"
      by (simp add: next_address_def)
  qed
  have c2: "length ?addrs \<le> length ?ups"
    unfolding l by (rule len)
  have c3: "\<forall>i<length ?addrs. temp_path_of (filename (?ups ! i)) = Inr (paths ! i)"
    unfolding l by (rule tps)
  have c4: "trace (snd (upload_loop e device es 0 s))
      = trace s @ map2 (\<lambda>a p. Ran (write_flash_cmd e device a p)) ?addrs paths"
    unfolding same by (rule tr)
  have c5: "\<forall>a'. fst (upload_loop e device es 0 s) = Inr a' \<longrightarrow> length ?addrs = length ?ups"
    unfolding same l by (rule fin)
  show ?thesis
    by (rule exI [of _ ?addrs], rule exI [of _ paths]) (intro conjI l c2 c3 c4 c5 first step)
qed

lemma exact_multiple_run:
  "upload_loop (bench tool_ok [''COM3'']) \<lparr>port = ''COM3''\<rparr>
       (file_list_of [file_of ''x.bin'' 4096, file_of ''y.bin'' 20]) 0x0 start
     = (Inr 0x3000,
        start\<lparr>trace :=
              [Ran [''esptool'', ''--port'', ''COM3'', ''--baud'', ''115200'',
                    ''write_flash'', ''--flash_size=detect'', ''0x0'', ''temp.bin''],
               Ran [''esptool'', ''--port'', ''COM3'', ''--baud'', ''115200'',
                    ''write_flash'', ''--flash_size=detect'', ''0x2000'', ''temp.bin'']]\<rparr>)"
proof -
  let ?e = "bench tool_ok [''COM3'']"
  let ?d = "\<lparr>port = ''COM3''\<rparr>"
  let ?x = "file_of ''x.bin'' 4096"
  let ?y = "file_of ''y.bin'' 20"
  let ?s1 = "start\<lparr>trace := trace start @ [Ran (write_flash_cmd ?e ?d 0 ''temp.bin'')],
               files := (files start)(''temp.bin'' := None)\<rparr>"
  let ?s2 = "?s1\<lparr>trace := trace ?s1 @ [Ran (write_flash_cmd ?e ?d 0x2000 ''temp.bin'')],
               files := (files ?s1)(''temp.bin'' := None)\<rparr>"
  have "upload_loop ?e ?d (file_list_of [?x, ?y]) 0 start = upload_loop ?e ?d [?x, ?y] 0 start"
    by (simp add: file_list_examples)
  also have "\<dots> = upload_loop ?e ?d [?y] 0x2000 ?s1"
    by (subst upload_loop_ok [where tp = "''temp.bin''"])
       (simp_all add: file_of_sel temp_path_examples tool_ok_run next_address_def CHUNK_SIZE_def)
  also have "\<dots> = upload_loop ?e ?d [] 0x3000 ?s2"
    by (subst upload_loop_ok [where tp = "''temp.bin''"])
       (simp_all add: file_of_sel temp_path_examples tool_ok_run next_address_def CHUNK_SIZE_def)
  also have "\<dots> = (Inr 0x3000, ?s2)"
    by simp
  finally show ?thesis
    by (simp add: hex_0 hex_0x2000 bench_fields start_def)
qed

text \<open>
  Claim C2, as stated: when the end offset of an entry is an exact multiple of the chunk size,
  the next address equals that end offset. It does not: after the 4096 bytes of \<^verbatim>\<open>x.bin\<close> at
  address 0 the end offset is 4096, written \<^verbatim>\<open>0x1000\<close>, and \<^verbatim>\<open>y.bin\<close> is written at \<^verbatim>\<open>0x2000\<close>.
\<close>

theorem exact_multiple_counterexample:
  "(0 + int (length (content (file_of ''x.bin'' 4096)))) mod CHUNK_SIZE = 0
   \<and> hex (0 + int (length (content (file_of ''x.bin'' 4096)))) = ''0x1000''
   \<and> trace (snd (upload_loop (bench tool_ok [''COM3'']) \<lparr>port = ''COM3''\<rparr>
       (file_list_of [file_of ''x.bin'' 4096, file_of ''y.bin'' 20]) 0x0 start))
     = [Ran [''esptool'', ''--port'', ''COM3'', ''--baud'', ''115200'',
             ''write_flash'', ''--flash_size=detect'', ''0x0'', ''temp.bin''],
        Ran [''esptool'', ''--port'', ''COM3'', ''--baud'', ''115200'',
             ''write_flash'', ''--flash_size=detect'', ''0x2000'', ''temp.bin'']]"
  by (simp add: exact_multiple_run file_of_sel CHUNK_SIZE_def hex_0x1000)

theorem upload_addresses_witness:
  "\<exists>addrs paths.
       length addrs = 2 \<and> addrs ! 0 = 0x0 \<and> addrs ! Suc 0 = 0x2000
     \<and> fst (upload_loop (bench tool_ok [''COM3'']) \<lparr>port = ''COM3''\<rparr>
              (file_list_of [file_of ''x.bin'' 4096, file_of ''y.bin'' 20]) 0x0 start) = Inr 0x3000
     \<and> trace (snd (upload_loop (bench tool_ok [''COM3'']) \<lparr>port = ''COM3''\<rparr>
              (file_list_of [file_of ''x.bin'' 4096, file_of ''y.bin'' 20]) 0x0 start))
         = trace start @ map2 (\<lambda>a p. Ran (write_flash_cmd (bench tool_ok [''COM3'']) \<lparr>port = ''COM3''\<rparr> a p)) addrs paths"
proof -
  let ?e = "bench tool_ok [''COM3'']"
  let ?d = "\<lparr>port = ''COM3''\<rparr>"
  let ?es = "file_list_of [file_of ''x.bin'' 4096, file_of ''y.bin'' 20]"
  have ups: "[x \<leftarrow> ?es. filename x \<noteq> ''/''] = [file_of ''x.bin'' 4096, file_of ''y.bin'' 20]"
    by (simp add: file_list_examples file_of_sel)
  have ok: "fst (upload_loop ?e ?d ?es 0x0 start) = Inr 0x3000"
    by (simp add: exact_multiple_run)
  from upload_addresses [of ?es ?e ?d start]
  obtain addrs paths where
    tr: "trace (snd (upload_loop ?e ?d ?es 0x0 start))
         = trace start @ map2 (\<lambda>a p. Ran (write_flash_cmd ?e ?d a p)) addrs paths"
    and fin: "\<forall>a'. fst (upload_loop ?e ?d ?es 0x0 start) = Inr a'
            \<longrightarrow> length addrs = length [x \<leftarrow> ?es. filename x \<noteq> ''/'']"
    and first: "addrs \<noteq> [] \<longrightarrow> addrs ! 0 = 0x0"
    and step: "\<forall>i. Suc i < length addrs \<longrightarrow>
            addrs ! Suc i
              = ((addrs ! i + int (length (content ([x \<leftarrow> ?es. filename x \<noteq> ''/''] ! i)))) div CHUNK_SIZE + 1)
                  * CHUNK_SIZE"
    by blast
  from fin ok have l: "length addrs = 2"
    unfolding ups by simp
  then have ne: "addrs \<noteq> []" by auto
  with first have a0: "addrs ! 0 = 0" by simp
  from step l have "addrs ! Suc 0
      = ((addrs ! 0 + int (length (content ([x \<leftarrow> ?es. filename x \<noteq> ''/''] ! 0)))) div CHUNK_SIZE + 1) * CHUNK_SIZE"
    by simp
  then have a1: "addrs ! Suc 0 = 0x2000"
    unfolding ups a0 by (simp add: file_of_sel CHUNK_SIZE_def)
  from l a0 a1 ok tr show ?thesis
    by blast
qed

end
